theory Spec2Isabelle
  imports Complex_Main "HOL-Library.AList"
begin

section \<open>Python values used by the optimization service\<close>

text \<open>
  The service (\<^verbatim>\<open>optimizer/python_service/src\<close>) is Python. Its dataclasses annotate
  several fields with plain \<^verbatim>\<open>Enum\<close> classes (\<^verbatim>\<open>TrainPriority\<close>, \<^verbatim>\<open>ObjectiveType\<close>,
  \<^verbatim>\<open>ConstraintType\<close>), while the engine compares these fields with \<^verbatim>\<open>str\<close> literals and
  uses them as keys of dictionaries whose keys are \<^verbatim>\<open>str\<close>. A dataclass does not check
  its annotations, so at run time such a field holds a member of the Enum (what every
  caller in the repository passes) or the wire name as a \<^verbatim>\<open>str\<close>. A member of a plain
  Enum never compares equal to a \<^verbatim>\<open>str\<close>, so both kinds of value are kept apart.
\<close>

datatype 'e pyval = Member 'e | Str string

text \<open>\<^verbatim>\<open>d.get(key, default)\<close> on a dictionary with \<^verbatim>\<open>str\<close> keys.\<close>

fun dict_get :: "(string \<times> 'v) list \<Rightarrow> 'e pyval \<Rightarrow> 'v \<Rightarrow> 'v" where
  "dict_get d (Str s) dflt = (case map_of d s of Some v \<Rightarrow> v | None \<Rightarrow> dflt)"
| "dict_get d (Member m) dflt = dflt"

text \<open>\<^verbatim>\<open>field == 'LITERAL'\<close> and \<^verbatim>\<open>field in d\<close> for a dictionary with \<^verbatim>\<open>str\<close> keys.\<close>

fun eq_str :: "'e pyval \<Rightarrow> string \<Rightarrow> bool" where
  "eq_str (Str s) t = (s = t)"
| "eq_str (Member m) t = False"

fun key_in :: "'e pyval \<Rightarrow> (string \<times> 'v) list \<Rightarrow> bool" where
  "key_in (Str s) d = (map_of d s \<noteq> None)"
| "key_in (Member m) d = False"

text \<open>
  Exceptions are values: a computation that may raise returns \<open>Inl\<close> of the exception
  text (\<^verbatim>\<open>str(e)\<close>, which is all the engine keeps of an exception) or \<open>Inr\<close> of its
  result.
\<close>

type_synonym 'a result = "string + 'a"

definition bindE :: "'a result \<Rightarrow> ('a \<Rightarrow> 'b result) \<Rightarrow> 'b result" where
  "bindE r f = (case r of Inl e \<Rightarrow> Inl e | Inr x \<Rightarrow> f x)"

text \<open>A \<^verbatim>\<open>for\<close> loop whose body may raise: the first exception ends the loop.\<close>

fun foldE :: "('a \<Rightarrow> 's \<Rightarrow> 's result) \<Rightarrow> 'a list \<Rightarrow> 's \<Rightarrow> 's result" where
  "foldE f [] s = Inr s"
| "foldE f (x # xs) s = bindE (f x s) (foldE f xs)"

text \<open>\<^verbatim>\<open>d[k]\<close>: a missing key raises \<^verbatim>\<open>KeyError\<close>, whose text is the quoted key.\<close>

definition getitem :: "(string \<times> 'v) list \<Rightarrow> string \<Rightarrow> 'v result" where
  "getitem d k = (case map_of d k of Some v \<Rightarrow> Inr v | None \<Rightarrow> Inl (CHR 0x27 # k @ [CHR 0x27]))"

text \<open>
  \<^verbatim>\<open>int(x)\<close> of a float truncates towards zero. Floats are modelled by exact rationals:
  rounding of the binary representation is not part of the model.
\<close>

definition py_int :: "rat \<Rightarrow> int" where
  "py_int x = (if 0 \<le> x then \<lfloor>x\<rfloor> else \<lceil>x\<rceil>)"

text \<open>\<^verbatim>\<open>str(n)\<close> of a non-negative integer.\<close>

fun str_nat :: "nat \<Rightarrow> string" where
  "str_nat n = (if n < 10 then [char_of (48 + n)] else str_nat (n div 10) @ [char_of (48 + n mod 10)])"

declare str_nat.simps [simp del]

text \<open>
  The pairs visited by
  \<^verbatim>\<open>for i, x in enumerate(xs): for j, y in enumerate(xs[i+1:], i+1)\<close>, in order.
\<close>

fun pairs :: "'a list \<Rightarrow> ('a \<times> 'a) list" where
  "pairs [] = []"
| "pairs (x # xs) = map (Pair x) xs @ pairs xs"

section \<open>Data model (\<^verbatim>\<open>models.py\<close>)\<close>

datatype OptimizationStatus = OPTIMAL | FEASIBLE | INFEASIBLE | UNKNOWN | TIME_LIMIT_EXCEEDED | ERROR

datatype TrainType = TT_PASSENGER | TT_EXPRESS | TT_FREIGHT | TT_MAIL | TT_MAINTENANCE | TT_EMPTY

datatype TrainPriority = EMERGENCY | EXPRESS | MAIL | PASSENGER | FREIGHT | MAINTENANCE

datatype ObjectiveType = MINIMIZE_DELAY | MAXIMIZE_THROUGHPUT | MINIMIZE_ENERGY_CONSUMPTION
  | MAXIMIZE_UTILIZATION | MINIMIZE_CONFLICTS | BALANCED_OPTIMAL

datatype ConstraintType = SAFETY_DISTANCE | PLATFORM_CAPACITY | TRAIN_PRIORITY | MAINTENANCE_WINDOW
  | SPEED_LIMIT | CROSSING_TIME | SIGNAL_SPACING | ENERGY_EFFICIENCY | PASSENGER_TRANSFER

text \<open>A \<^verbatim>\<open>datetime\<close> is a count of microseconds; \<^verbatim>\<open>timedelta(minutes=k)\<close> is \<open>k * minute\<close>.\<close>

type_synonym datetime = int

definition minute :: int where
  "minute = 60000000"

record TrainCharacteristics =
  acceleration_ms2 :: rat
  deceleration_ms2 :: rat
  power_kw :: rat
  weight_tons :: rat
  passenger_load_percent :: int
  is_electric :: bool
  required_platforms :: "string list"

text \<open>
  Field \<^verbatim>\<open>id\<close> is \<open>t_id\<close> here. \<^verbatim>\<open>characteristics\<close> is never \<^verbatim>\<open>None\<close> after
  \<^verbatim>\<open>__post_init__\<close>, which puts the default characteristics in its place.
\<close>

record Train =
  t_id :: string
  train_number :: int
  train_type :: "TrainType pyval"
  priority :: "TrainPriority pyval"
  capacity_passengers :: int
  length_meters :: rat
  max_speed_kmh :: rat
  scheduled_departure :: datetime
  scheduled_arrival :: datetime
  origin_station :: string
  destination_station :: string
  route_sections :: "string list"
  characteristics :: TrainCharacteristics

record Constraint =
  c_id :: string
  c_type :: "ConstraintType pyval"
  c_priority :: int
  parameters :: "(string \<times> string) list"
  is_hard_constraint :: bool

record WeightedObjective =
  w_objective :: "ObjectiveType pyval"
  weight :: rat

record OptimizationObjective =
  primary_objective :: "ObjectiveType pyval"
  secondary_objectives :: "WeightedObjective list"
  time_limit_seconds :: rat
  o_enable_preprocessing :: bool

record OptimizationConfig =
  max_solver_time_seconds :: int
  enable_preprocessing :: bool
  num_search_workers :: int
  strategy :: string
  enable_detailed_logging :: bool

record DisruptionEvent =
  d_id :: string
  d_type :: string
  affected_section :: string
  d_start_time :: datetime
  d_end_time :: datetime
  severity :: int
  metadata :: "(string \<times> string) list"

record OptimizationRequest =
  request_id :: string
  section_id :: string
  time_horizon_minutes :: int
  trains :: "Train list"
  constraints :: "Constraint list"
  objective :: OptimizationObjective
  disruptions :: "DisruptionEvent list"
  requested_at :: datetime
  config :: OptimizationConfig

record SpeedProfilePoint =
  position_km :: rat
  speed_kmh :: rat
  time_offset_minutes :: rat

record TrainScheduleEntry =
  train_id :: string
  e_train_number :: int
  e_scheduled_departure :: datetime
  e_scheduled_arrival :: datetime
  platform :: int
  priority_applied :: "TrainPriority pyval"
  delay_adjustment_minutes :: int
  e_conflicts_resolved :: "string list"
  speed_profile :: "SpeedProfilePoint list"

record PerformanceMetrics =
  total_delay_minutes :: rat
  average_delay_per_train :: rat
  conflicts_resolved :: int
  throughput_trains_per_hour :: rat
  utilization_percent :: rat
  energy_consumption_kwh :: rat
  platform_changes :: int
  passenger_waiting_time_minutes :: rat

record AlternativeSchedule =
  a_name :: string
  a_description :: string
  a_schedule :: "TrainScheduleEntry list"
  a_kpis :: PerformanceMetrics
  trade_offs :: string
  score :: rat

record OptimizationResponse =
  r_request_id :: string
  status :: OptimizationStatus
  optimized_schedule :: "TrainScheduleEntry list"
  kpis :: PerformanceMetrics
  reasoning :: string
  confidence_score :: rat
  alternatives :: "AlternativeSchedule list"
  execution_time_ms :: int
  completed_at :: datetime
  error_message :: string

section \<open>The constraint model handed to the solver\<close>

text \<open>
  The engine builds a \<^verbatim>\<open>cp_model.CpModel\<close> of the OR-Tools library and hands it to
  \<^verbatim>\<open>cp_model.CpSolver\<close>. The library is not part of the repository: what the engine puts
  into the model is recorded here as data, and the solver is a parameter of the
  pipeline. A variable is its index in the model, as in the library; the names the
  engine gives its variables are labels only and are left out. The interface the
  engine uses only ever appends to the model.
\<close>

datatype expr = V nat | K int | Plus expr expr | Minus expr expr | Times expr int

datatype cmp = EQ | NE | LE | GE | LT | GT

datatype literal = Pos nat | Neg nat

text \<open>
  \<open>Linear l c r lits\<close> is \<^verbatim>\<open>model.Add(l c r).OnlyEnforceIf(lits)\<close>; with no literal the
  constraint is always enforced. The other forms are \<^verbatim>\<open>AddBoolOr\<close>, \<^verbatim>\<open>AddBoolAnd\<close>
  (with enforcement literals) and \<^verbatim>\<open>AddMaxEquality\<close>.
\<close>

datatype cp_constraint =
    Linear expr cmp expr "literal list"
  | BoolOr "literal list" "literal list"
  | BoolAnd "literal list" "literal list"
  | MaxEquality expr "expr list"

datatype cp_objective = Minimize expr | Maximize expr

record CpModel =
  cp_variables :: "(int \<times> int) list"
  cp_constraints :: "cp_constraint list"
  cp_objective :: "cp_objective option"

definition empty_model :: CpModel where
  "empty_model = \<lparr>cp_variables = [], cp_constraints = [], cp_objective = None\<rparr>"

definition NewIntVar :: "CpModel \<Rightarrow> int \<Rightarrow> int \<Rightarrow> CpModel \<times> nat" where
  "NewIntVar m lb ub = (m\<lparr>cp_variables := cp_variables m @ [(lb, ub)]\<rparr>, length (cp_variables m))"

definition NewBoolVar :: "CpModel \<Rightarrow> CpModel \<times> nat" where
  "NewBoolVar m = NewIntVar m 0 1"

definition Add :: "CpModel \<Rightarrow> cp_constraint \<Rightarrow> CpModel" where
  "Add m c = m\<lparr>cp_constraints := cp_constraints m @ [c]\<rparr>"

subsection \<open>What a solution is\<close>

fun eval :: "(nat \<Rightarrow> int) \<Rightarrow> expr \<Rightarrow> int" where
  "eval a (V v) = a v"
| "eval a (K k) = k"
| "eval a (Plus x y) = eval a x + eval a y"
| "eval a (Minus x y) = eval a x - eval a y"
| "eval a (Times x k) = eval a x * k"

fun holds :: "cmp \<Rightarrow> int \<Rightarrow> int \<Rightarrow> bool" where
  "holds EQ x y = (x = y)"
| "holds NE x y = (x \<noteq> y)"
| "holds LE x y = (x \<le> y)"
| "holds GE x y = (x \<ge> y)"
| "holds LT x y = (x < y)"
| "holds GT x y = (x > y)"

fun lit :: "(nat \<Rightarrow> int) \<Rightarrow> literal \<Rightarrow> bool" where
  "lit a (Pos v) = (a v \<noteq> 0)"
| "lit a (Neg v) = (a v = 0)"

fun sat :: "(nat \<Rightarrow> int) \<Rightarrow> cp_constraint \<Rightarrow> bool" where
  "sat a (Linear l c r enf) = (if list_all (lit a) enf then holds c (eval a l) (eval a r) else True)"
| "sat a (BoolOr ls enf) = (if list_all (lit a) enf then list_ex (lit a) ls else True)"
| "sat a (BoolAnd ls enf) = (if list_all (lit a) enf then list_all (lit a) ls else True)"
| "sat a (MaxEquality t es) = (list_ex (\<lambda>e. eval a e = eval a t) es \<and> list_all (\<lambda>e. eval a e \<le> eval a t) es)"

text \<open>
  An assignment is a solution of the model when every variable lies in its domain and
  every constraint is satisfied. This is what the solver promises of the values it
  reports with status \<^verbatim>\<open>OPTIMAL\<close> or \<^verbatim>\<open>FEASIBLE\<close>.
\<close>

definition in_domain :: "(nat \<Rightarrow> int) \<Rightarrow> nat \<times> int \<times> int \<Rightarrow> bool" where
  "in_domain a = (\<lambda>(v, lb, ub). lb \<le> a v \<and> a v \<le> ub)"

definition feasible :: "CpModel \<Rightarrow> (nat \<Rightarrow> int) \<Rightarrow> bool" where
  "feasible m a =
     (list_all (in_domain a) (zip [0 ..< length (cp_variables m)] (cp_variables m))
      \<and> list_all (sat a) (cp_constraints m))"

text \<open>The statuses of \<^verbatim>\<open>CpSolver.Solve\<close>, and what a call of the solver does.\<close>

datatype cp_status = CP_UNKNOWN | CP_MODEL_INVALID | CP_FEASIBLE | CP_INFEASIBLE | CP_OPTIMAL

datatype solve_outcome = Raised string | Solved cp_status "nat \<Rightarrow> int"

text \<open>
  \<^verbatim>\<open>_configure_solver\<close> copies the request's configuration into the parameters of the
  solver and does nothing else, so the solver takes the configuration as an argument.
\<close>

type_synonym solver = "OptimizationConfig \<Rightarrow> CpModel \<Rightarrow> solve_outcome"

section \<open>Decision variables (\<^verbatim>\<open>_create_decision_variables\<close>)\<close>

text \<open>
  The dictionaries of variables are association lists in insertion order; storing under
  a key that is already present replaces the value and keeps the key's place.
\<close>

record Variables =
  train_start_times :: "(string \<times> nat) list"
  train_end_times :: "(string \<times> nat) list"
  platform_assignments :: "(string \<times> nat) list"
  train_delays :: "(string \<times> nat) list"
  section_occupancy :: "(string \<times> nat) list"
  speed_variables :: "(string \<times> nat) list"

definition empty_variables :: Variables where
  "empty_variables = \<lparr>train_start_times = [], train_end_times = [], platform_assignments = [],
     train_delays = [], section_occupancy = [], speed_variables = []\<rparr>"

definition new_speed_var :: "Train \<Rightarrow> string \<Rightarrow> CpModel \<times> Variables \<Rightarrow> CpModel \<times> Variables" where
  "new_speed_var train section = (\<lambda>(m, vs).
     (let (m1, speed_var) = NewIntVar m 20 (py_int (max_speed_kmh train))
      in (m1, vs\<lparr>speed_variables :=
            AList.update (t_id train @ ''_'' @ section) speed_var (speed_variables vs)\<rparr>)))"

definition new_train_vars :: "int \<Rightarrow> Train \<Rightarrow> CpModel \<times> Variables \<Rightarrow> CpModel \<times> Variables" where
  "new_train_vars time_horizon train = (\<lambda>(m, vs).
     (let (m1, s) = NewIntVar m 0 time_horizon;
          vs1 = vs\<lparr>train_start_times := AList.update (t_id train) s (train_start_times vs)\<rparr>;
          (m2, e) = NewIntVar m1 0 time_horizon;
          vs2 = vs1\<lparr>train_end_times := AList.update (t_id train) e (train_end_times vs1)\<rparr>;
          (m3, p) = NewIntVar m2 1 10;
          vs3 = vs2\<lparr>platform_assignments := AList.update (t_id train) p (platform_assignments vs2)\<rparr>;
          max_delay = 60;
          (m4, d) = NewIntVar m3 (- 30) max_delay;
          vs4 = vs3\<lparr>train_delays := AList.update (t_id train) d (train_delays vs3)\<rparr>
      in fold (new_speed_var train) (route_sections train) (m4, vs4)))"

definition new_occupancy_var :: "Train \<Rightarrow> string \<Rightarrow> nat \<Rightarrow> CpModel \<times> Variables \<Rightarrow> CpModel \<times> Variables" where
  "new_occupancy_var train section t = (\<lambda>(m, vs).
     (let (m1, occupancy_var) = NewBoolVar m
      in (m1, vs\<lparr>section_occupancy :=
            AList.update (t_id train @ ''_'' @ section @ ''_'' @ str_nat t) occupancy_var
              (section_occupancy vs)\<rparr>)))"

definition new_occupancy_vars :: "int \<Rightarrow> Train \<Rightarrow> CpModel \<times> Variables \<Rightarrow> CpModel \<times> Variables" where
  "new_occupancy_vars time_horizon train =
     fold (\<lambda>section. fold (new_occupancy_var train section) [0 ..< nat time_horizon])
       (route_sections train)"

text \<open>
  Nothing here looks at the sign of the horizon: \<^verbatim>\<open>range(time_horizon)\<close> is empty when
  it is not positive, and the bounds are passed on to the library as they are.
\<close>

definition create_decision_variables :: "CpModel \<Rightarrow> OptimizationRequest \<Rightarrow> CpModel \<times> Variables" where
  "create_decision_variables model request =
     (let time_horizon = time_horizon_minutes request
      in fold (new_occupancy_vars time_horizon) (trains request)
           (fold (new_train_vars time_horizon) (trains request) (model, empty_variables)))"

section \<open>Built-in constraints (\<^verbatim>\<open>_add_constraints\<close>)\<close>

text \<open>
  \<^verbatim>\<open>_calculate_journey_time\<close>: ten kilometres per section at 80 percent of the maximum
  speed, at most 80 km/h. A speed of zero makes the division raise
  \<^verbatim>\<open>ZeroDivisionError\<close>.
\<close>

definition calculate_journey_time :: "Train \<Rightarrow> int result" where
  "calculate_journey_time train =
     (let total_distance = int (length (route_sections train)) * 10;
          average_speed = min (max_speed_kmh train * (8 / 10)) 80
      in if average_speed = 0 then Inl ''float division by zero''
         else (let journey_time_hours = of_int total_distance / average_speed
               in Inr (py_int (journey_time_hours * 60))))"

definition datetime_to_minutes :: "datetime \<Rightarrow> datetime \<Rightarrow> int" where
  "datetime_to_minutes dt reference =
     (let delta = dt - reference;
          total_seconds = of_int delta / 1000000
      in py_int (total_seconds / 60))"

definition timing_constraint :: "Variables \<Rightarrow> OptimizationRequest \<Rightarrow> Train \<Rightarrow> CpModel \<Rightarrow> CpModel result" where
  "timing_constraint variables request train model =
     bindE (getitem (train_start_times variables) (t_id train)) (\<lambda>start_var.
     bindE (getitem (train_end_times variables) (t_id train)) (\<lambda>end_var.
     bindE (getitem (train_delays variables) (t_id train)) (\<lambda>delay_var.
     bindE (calculate_journey_time train) (\<lambda>expected_journey_time.
       (let m1 = Add model (Linear (V end_var) EQ (Plus (V start_var) (K expected_journey_time)) []);
            scheduled_start = datetime_to_minutes (scheduled_departure train) (requested_at request)
        in Inr (Add m1 (Linear (V start_var) EQ (Plus (K scheduled_start) (V delay_var)) [])))))))"

definition add_timing_constraints :: "CpModel \<Rightarrow> Variables \<Rightarrow> OptimizationRequest \<Rightarrow> CpModel result" where
  "add_timing_constraints model variables request =
     foldE (timing_constraint variables request) (trains request) model"

definition group_by_station :: "Train \<Rightarrow> (string \<times> Train list) list \<Rightarrow> (string \<times> Train list) list result" where
  "group_by_station train station_trains =
     (let origin = origin_station train;
          dest = destination_station train;
          st1 = (if map_of station_trains origin = None then AList.update origin [] station_trains
                 else station_trains);
          st2 = (if map_of st1 dest = None then AList.update dest [] st1 else st1)
      in bindE (getitem st2 origin) (\<lambda>at_origin.
           (let st3 = AList.update origin (at_origin @ [train]) st2
            in bindE (getitem st3 dest) (\<lambda>at_dest.
                 Inr (AList.update dest (at_dest @ [train]) st3)))))"

definition add_platform_conflict_constraint :: "Variables \<Rightarrow> Train \<times> Train \<Rightarrow> CpModel \<Rightarrow> CpModel result" where
  "add_platform_conflict_constraint variables = (\<lambda>(train1, train2) model.
     bindE (getitem (platform_assignments variables) (t_id train1)) (\<lambda>platform1.
     bindE (getitem (platform_assignments variables) (t_id train2)) (\<lambda>platform2.
     bindE (getitem (train_start_times variables) (t_id train1)) (\<lambda>start1.
     bindE (getitem (train_end_times variables) (t_id train1)) (\<lambda>end1.
     bindE (getitem (train_start_times variables) (t_id train2)) (\<lambda>start2.
     bindE (getitem (train_end_times variables) (t_id train2)) (\<lambda>end2.
       (let (m1, same_platform) = NewBoolVar model;
            m2 = Add m1 (Linear (V platform1) EQ (V platform2) [Pos same_platform]);
            m3 = Add m2 (Linear (V platform1) NE (V platform2) [Neg same_platform]);
            (m4, no_overlap) = NewBoolVar m3;
            m5 = Add m4 (Linear (V end1) LE (V start2) [Pos same_platform, Pos no_overlap])
        in Inr (Add m5 (Linear (V end2) LE (V start1) [Pos same_platform, Neg no_overlap]))))))))))"

definition add_platform_constraints :: "CpModel \<Rightarrow> Variables \<Rightarrow> OptimizationRequest \<Rightarrow> CpModel result" where
  "add_platform_constraints model variables request =
     bindE (foldE group_by_station (trains request) []) (\<lambda>station_trains.
       foldE (\<lambda>(station, ts). foldE (add_platform_conflict_constraint variables) (pairs ts))
         station_trains model)"

definition add_headway_constraint :: "Variables \<Rightarrow> Train \<Rightarrow> Train \<Rightarrow> int \<Rightarrow> CpModel \<Rightarrow> CpModel result" where
  "add_headway_constraint variables train1 train2 min_headway model =
     bindE (getitem (train_start_times variables) (t_id train1)) (\<lambda>start1.
     bindE (getitem (train_start_times variables) (t_id train2)) (\<lambda>start2.
       (let (m1, order_bool) = NewBoolVar model;
            m2 = Add m1 (Linear (V start1) GE (Plus (V start2) (K min_headway)) [Pos order_bool])
        in Inr (Add m2 (Linear (V start2) GE (Plus (V start1) (K min_headway)) [Neg order_bool])))))"

definition shared_sections :: "Train \<Rightarrow> Train \<Rightarrow> string set" where
  "shared_sections train1 train2 = set (route_sections train1) \<inter> set (route_sections train2)"

definition safety_step :: "Variables \<Rightarrow> Train \<times> Train \<Rightarrow> CpModel \<Rightarrow> CpModel result" where
  "safety_step variables = (\<lambda>(train1, train2) model.
     (let minimum_headway = 5
      in if shared_sections train1 train2 \<noteq> {}
         then add_headway_constraint variables train1 train2 minimum_headway model
         else Inr model))"

definition add_safety_constraints :: "CpModel \<Rightarrow> Variables \<Rightarrow> OptimizationRequest \<Rightarrow> CpModel result" where
  "add_safety_constraints model variables request =
     foldE (safety_step variables) (pairs (trains request)) model"

definition priority_order :: "(string \<times> int) list" where
  "priority_order = [(''EMERGENCY'', 1), (''EXPRESS'', 2), (''MAIL'', 3),
     (''PASSENGER'', 4), (''FREIGHT'', 5), (''MAINTENANCE'', 6)]"

text \<open>
  Only the pair's first train, the one earlier in the request, can be put first; and the
  rank of a priority is found only when the field holds the name as a \<^verbatim>\<open>str\<close>.
\<close>

definition priority_step :: "Variables \<Rightarrow> Train \<times> Train \<Rightarrow> CpModel \<Rightarrow> CpModel result" where
  "priority_step variables = (\<lambda>(train1, train2) model.
     (let priority1 = dict_get priority_order (priority train1) 6;
          priority2 = dict_get priority_order (priority train2) 6
      in if priority1 < priority2
         then (if shared_sections train1 train2 \<noteq> {}
               then bindE (getitem (train_start_times variables) (t_id train1)) (\<lambda>start1.
                    bindE (getitem (train_start_times variables) (t_id train2)) (\<lambda>start2.
                      Inr (Add model (Linear (V start1) LE (V start2) []))))
               else Inr model)
         else Inr model))"

definition add_priority_constraints :: "CpModel \<Rightarrow> Variables \<Rightarrow> OptimizationRequest \<Rightarrow> CpModel result" where
  "add_priority_constraints model variables request =
     foldE (priority_step variables) (pairs (trains request)) model"

definition route_step :: "int \<Rightarrow> string \<Rightarrow> CpModel \<times> nat list \<Rightarrow> CpModel \<times> nat list" where
  "route_step time_horizon section = (\<lambda>(m, section_times).
     (let (m1, section_time) = NewIntVar m 0 time_horizon
      in if section_times \<noteq> []
         then (Add m1 (Linear (V section_time) GE (Plus (V (last section_times)) (K 1)) []),
               section_times @ [section_time])
         else (m1, section_times @ [section_time])))"

definition add_route_constraints :: "CpModel \<Rightarrow> Variables \<Rightarrow> OptimizationRequest \<Rightarrow> CpModel" where
  "add_route_constraints model variables request =
     fold (\<lambda>train m. fst (fold (route_step (time_horizon_minutes request)) (route_sections train) (m, [])))
       (trains request) model"

section \<open>Request-supplied constraints (\<^verbatim>\<open>constraint_models.py\<close>)\<close>

text \<open>
  A handler of the registry receives the model, the variables and the constraint. What
  it does depends on how the library parses and type-checks its arguments, so the nine
  handlers are parameters here: a handler appends variables and constraints to the
  model and then returns, or raises with a text. What it appended before raising stays
  in the model.
\<close>

type_synonym handler =
  "CpModel \<Rightarrow> Variables \<Rightarrow> Constraint \<Rightarrow> ((int \<times> int) list \<times> cp_constraint list) \<times> string option"

record ConstraintBuilder =
  add_safety_distance_constraint :: handler
  add_platform_capacity_constraint :: handler
  add_train_priority_constraint :: handler
  add_maintenance_window_constraint :: handler
  add_speed_limit_constraint :: handler
  add_crossing_time_constraint :: handler
  add_signal_spacing_constraint :: handler
  add_energy_efficiency_constraint :: handler
  add_passenger_transfer_constraint :: handler

definition constraint_registry :: "ConstraintBuilder \<Rightarrow> (string \<times> handler) list" where
  "constraint_registry cb =
     [(''SAFETY_DISTANCE'', add_safety_distance_constraint cb),
      (''PLATFORM_CAPACITY'', add_platform_capacity_constraint cb),
      (''TRAIN_PRIORITY'', add_train_priority_constraint cb),
      (''MAINTENANCE_WINDOW'', add_maintenance_window_constraint cb),
      (''SPEED_LIMIT'', add_speed_limit_constraint cb),
      (''CROSSING_TIME'', add_crossing_time_constraint cb),
      (''SIGNAL_SPACING'', add_signal_spacing_constraint cb),
      (''ENERGY_EFFICIENCY'', add_energy_efficiency_constraint cb),
      (''PASSENGER_TRANSFER'', add_passenger_transfer_constraint cb)]"

definition run_handler :: "handler \<Rightarrow> CpModel \<Rightarrow> Variables \<Rightarrow> Constraint \<Rightarrow> CpModel \<times> string option" where
  "run_handler h model variables constraint =
     (let ((new_vars, new_constraints), raised) = h model variables constraint
      in (model\<lparr>cp_variables := cp_variables model @ new_vars,
                 cp_constraints := cp_constraints model @ new_constraints\<rparr>, raised))"

text \<open>
  \<^verbatim>\<open>ConstraintBuilder.add_constraint\<close> returns whether the constraint was added; the
  model it leaves behind is the second component. The lookup of the handler and its
  call are inside the \<^verbatim>\<open>try\<close>, so whatever is raised there ends in \<^verbatim>\<open>return False\<close>.
\<close>

definition add_constraint :: "ConstraintBuilder \<Rightarrow> CpModel \<Rightarrow> Variables \<Rightarrow> Constraint \<Rightarrow> bool \<times> CpModel" where
  "add_constraint cb model variables constraint =
     (let constraint_type = c_type constraint
      in if \<not> key_in constraint_type (constraint_registry cb) then (False, model)
         else (case constraint_type of
                 Member k \<Rightarrow> (False, model)
               | Str s \<Rightarrow>
                   (case map_of (constraint_registry cb) s of
                      None \<Rightarrow> (False, model)
                    | Some constraint_func \<Rightarrow>
                        (case run_handler constraint_func model variables constraint of
                           (m1, None) \<Rightarrow> (True, m1)
                         | (m1, Some e) \<Rightarrow> (False, m1)))))"

text \<open>
  \<^verbatim>\<open>_add_custom_constraints\<close> wraps each call in a \<^verbatim>\<open>try\<close> of its own and goes on with
  the next constraint; \<open>add_constraint\<close> raises nothing, so that \<^verbatim>\<open>except\<close> never runs.
\<close>

definition add_custom_constraints :: "ConstraintBuilder \<Rightarrow> CpModel \<Rightarrow> Variables \<Rightarrow> OptimizationRequest \<Rightarrow> CpModel" where
  "add_custom_constraints cb model variables request =
     fold (\<lambda>constraint m. snd (add_constraint cb m variables constraint)) (constraints request) model"

definition add_constraints :: "ConstraintBuilder \<Rightarrow> CpModel \<Rightarrow> Variables \<Rightarrow> OptimizationRequest \<Rightarrow> CpModel result" where
  "add_constraints cb model variables request =
     bindE (add_timing_constraints model variables request) (\<lambda>m1.
     bindE (add_platform_constraints m1 variables request) (\<lambda>m2.
     bindE (add_safety_constraints m2 variables request) (\<lambda>m3.
     bindE (add_priority_constraints m3 variables request) (\<lambda>m4.
       (let m5 = add_route_constraints m4 variables request
        in Inr (add_custom_constraints cb m5 variables request))))))"

section \<open>Objective (\<^verbatim>\<open>_set_objective\<close>)\<close>

text \<open>\<^verbatim>\<open>sum(terms)\<close> starts from \<^verbatim>\<open>0\<close> and adds the terms from the left.\<close>

definition sum_expr :: "expr list \<Rightarrow> expr" where
  "sum_expr es = foldl Plus (K 0) es"

definition set_Minimize :: "CpModel \<Rightarrow> expr \<Rightarrow> CpModel" where
  "set_Minimize m e = m\<lparr>cp_objective := Some (Minimize e)\<rparr>"

definition set_Maximize :: "CpModel \<Rightarrow> expr \<Rightarrow> CpModel" where
  "set_Maximize m e = m\<lparr>cp_objective := Some (Maximize e)\<rparr>"

definition delay_term :: "Variables \<Rightarrow> Train \<Rightarrow> expr list \<Rightarrow> expr list result" where
  "delay_term variables train objective_terms =
     bindE (getitem (train_delays variables) (t_id train)) (\<lambda>delay_var.
       Inr (objective_terms @ [V delay_var]))"

definition minimize_total_delay :: "CpModel \<Rightarrow> Variables \<Rightarrow> OptimizationRequest \<Rightarrow> CpModel result" where
  "minimize_total_delay model variables request =
     bindE (foldE (delay_term variables) (trains request) []) (\<lambda>objective_terms.
       Inr (set_Minimize model (sum_expr objective_terms)))"

definition on_time_step :: "Variables \<Rightarrow> Train \<Rightarrow> CpModel \<times> expr list \<Rightarrow> (CpModel \<times> expr list) result" where
  "on_time_step variables train = (\<lambda>(m, on_time_vars).
     bindE (getitem (train_delays variables) (t_id train)) (\<lambda>delay_var.
       (let (m1, on_time) = NewBoolVar m;
            m2 = Add m1 (Linear (V delay_var) LE (K 5) [Pos on_time]);
            m3 = Add m2 (Linear (V delay_var) GT (K 5) [Neg on_time])
        in Inr (m3, on_time_vars @ [V on_time]))))"

definition balanced_step :: "Variables \<Rightarrow> Train \<Rightarrow> CpModel \<times> expr list \<times> expr list
    \<Rightarrow> (CpModel \<times> expr list \<times> expr list) result" where
  "balanced_step variables train = (\<lambda>(m, delay_terms, on_time_vars).
     bindE (getitem (train_delays variables) (t_id train)) (\<lambda>delay_var.
       (let (m1, on_time) = NewBoolVar m;
            m2 = Add m1 (Linear (V delay_var) LE (K 3) [Pos on_time]);
            m3 = Add m2 (Linear (V delay_var) GT (K 3) [Neg on_time])
        in Inr (m3, delay_terms @ [V delay_var], on_time_vars @ [V on_time]))))"

text \<open>
  The engine sets the objective itself; it holds an \<^verbatim>\<open>ObjectiveManager\<close> but never calls
  it. The branch is chosen by comparing the primary objective with \<^verbatim>\<open>str\<close> literals.
\<close>

definition set_objective :: "CpModel \<Rightarrow> Variables \<Rightarrow> OptimizationRequest \<Rightarrow> CpModel result" where
  "set_objective model variables request =
     (if eq_str (primary_objective (objective request)) ''MINIMIZE_DELAY''
      then minimize_total_delay model variables request
      else if eq_str (primary_objective (objective request)) ''MAXIMIZE_THROUGHPUT''
      then bindE (foldE (on_time_step variables) (trains request) (model, []))
             (\<lambda>(m, on_time_vars). Inr (set_Maximize m (sum_expr on_time_vars)))
      else if eq_str (primary_objective (objective request)) ''BALANCED_OPTIMAL''
      then bindE (foldE (balanced_step variables) (trains request) (model, [], []))
             (\<lambda>(m, delay_terms, on_time_vars).
               (let total_delay = sum_expr delay_terms;
                    total_on_time = sum_expr on_time_vars;
                    weighted_objective = Minus total_delay (Times total_on_time 10)
                in Inr (set_Minimize m weighted_objective)))
      else minimize_total_delay model variables request)"

text \<open>The model as it stands when \<^verbatim>\<open>solver.Solve(model)\<close> is called.\<close>

definition build_model :: "ConstraintBuilder \<Rightarrow> OptimizationRequest \<Rightarrow> (CpModel \<times> Variables) result" where
  "build_model cb request =
     (let (model, variables) = create_decision_variables empty_model request
      in bindE (add_constraints cb model variables request) (\<lambda>m1.
         bindE (set_objective m1 variables request) (\<lambda>m2.
           Inr (m2, variables))))"

section \<open>Reading the solution (\<^verbatim>\<open>_process_solution\<close>)\<close>

text \<open>The two readings of the clock a response carries are inputs of the model.\<close>

record Clock =
  elapsed_ms :: int
  utcnow :: datetime

fun to_status :: "cp_status \<Rightarrow> OptimizationStatus" where
  "to_status CP_OPTIMAL = OPTIMAL"
| "to_status CP_FEASIBLE = FEASIBLE"
| "to_status CP_INFEASIBLE = INFEASIBLE"
| "to_status CP_UNKNOWN = TIME_LIMIT_EXCEEDED"
| "to_status CP_MODEL_INVALID = ERROR"

definition generate_speed_profile :: "(nat \<Rightarrow> int) \<Rightarrow> Variables \<Rightarrow> Train \<Rightarrow> SpeedProfilePoint list" where
  "generate_speed_profile a variables train =
     map (\<lambda>(i, section).
            (let speed_key = t_id train @ ''_'' @ section;
                 speed = (case map_of (speed_variables variables) speed_key of
                            Some speed_var \<Rightarrow> of_int (a speed_var)
                          | None \<Rightarrow> max_speed_kmh train * (8 / 10))
             in \<lparr>position_km = of_nat i * 10, speed_kmh = speed, time_offset_minutes = of_nat i * 15\<rparr>))
       (enumerate 0 (route_sections train))"

definition schedule_entry :: "(nat \<Rightarrow> int) \<Rightarrow> Variables \<Rightarrow> OptimizationRequest \<Rightarrow> Train
    \<Rightarrow> TrainScheduleEntry list \<times> int \<Rightarrow> (TrainScheduleEntry list \<times> int) result" where
  "schedule_entry a variables request train = (\<lambda>(optimized_schedule, total_delay).
     bindE (getitem (train_start_times variables) (t_id train)) (\<lambda>start_var.
     bindE (getitem (train_end_times variables) (t_id train)) (\<lambda>end_var.
     bindE (getitem (platform_assignments variables) (t_id train)) (\<lambda>platform_var.
     bindE (getitem (train_delays variables) (t_id train)) (\<lambda>delay_var.
       (let start_time_val = a start_var;
            end_time_val = a end_var;
            platform_val = a platform_var;
            delay_val = a delay_var;
            actual_departure = requested_at request + start_time_val * minute;
            actual_arrival = requested_at request + end_time_val * minute
        in Inr (optimized_schedule @
                  [\<lparr>train_id = t_id train,
                    e_train_number = train_number train,
                    e_scheduled_departure = actual_departure,
                    e_scheduled_arrival = actual_arrival,
                    platform = platform_val,
                    priority_applied = priority train,
                    delay_adjustment_minutes = delay_val,
                    e_conflicts_resolved = [],
                    speed_profile = generate_speed_profile a variables train\<rparr>],
                total_delay + max 0 delay_val)))))))"

definition estimate_energy_consumption :: "TrainScheduleEntry list \<Rightarrow> Train list \<Rightarrow> rat" where
  "estimate_energy_consumption schedule ts =
     fold (\<lambda>entry total_energy.
             (case find (\<lambda>t. t_id t = train_id entry) ts of
                None \<Rightarrow> total_energy
              | Some train \<Rightarrow>
                  (let journey_time_hours =
                         of_int \<bar>e_scheduled_arrival entry - e_scheduled_departure entry\<bar> / 1000000 / 3600;
                       power = (if power_kw (characteristics train) \<noteq> 0
                                then power_kw (characteristics train) else 2000)
                   in total_energy + power * journey_time_hours * (7 / 10))))
       schedule 0"

text \<open>
  \<^verbatim>\<open>_calculate_performance_metrics\<close>. The share of on-time trains that the source
  computes first is not used in the result and is left out.
\<close>

definition calculate_performance_metrics :: "TrainScheduleEntry list \<Rightarrow> Train list \<Rightarrow> Variables \<Rightarrow> PerformanceMetrics" where
  "calculate_performance_metrics schedule original_trains variables =
     (let total_delay = sum_list (map (\<lambda>entry. max 0 (delay_adjustment_minutes entry)) schedule);
          avg_delay = (if schedule \<noteq> [] then of_int total_delay / of_nat (length schedule) else 0);
          time_span_hours = 2;
          utilization = min (of_nat (length schedule) / (time_span_hours * 10) * 100) 100
      in \<lparr>total_delay_minutes = of_int total_delay,
          average_delay_per_train = avg_delay,
          conflicts_resolved = int (length (train_start_times variables)) div 3,
          throughput_trains_per_hour = of_nat (length schedule) / time_span_hours,
          utilization_percent = utilization,
          energy_consumption_kwh = estimate_energy_consumption schedule original_trains,
          platform_changes = int (length schedule),
          passenger_waiting_time_minutes = avg_delay * (8 / 10)\<rparr>)"

fun status_repr :: "OptimizationStatus \<Rightarrow> string" where
  "status_repr OPTIMAL = ''OptimizationStatus.OPTIMAL''"
| "status_repr FEASIBLE = ''OptimizationStatus.FEASIBLE''"
| "status_repr INFEASIBLE = ''OptimizationStatus.INFEASIBLE''"
| "status_repr UNKNOWN = ''OptimizationStatus.UNKNOWN''"
| "status_repr TIME_LIMIT_EXCEEDED = ''OptimizationStatus.TIME_LIMIT_EXCEEDED''"
| "status_repr ERROR = ''OptimizationStatus.ERROR''"

text \<open>The total delay is a sum of non-negative integers; \<^verbatim>\<open>:.1f\<close> prints it with \<^verbatim>\<open>.0\<close>.\<close>

definition generate_reasoning :: "OptimizationStatus \<Rightarrow> int \<Rightarrow> nat \<Rightarrow> string" where
  "generate_reasoning st total_delay num_trains =
     (if st = OPTIMAL
      then ''Found optimal solution for '' @ str_nat num_trains @ '' trains. '' @
           ''Total delay minimized to '' @ str_nat (nat total_delay) @ ''.0 minutes. '' @
           ''All constraints satisfied.''
      else if st = FEASIBLE
      then ''Found feasible solution for '' @ str_nat num_trains @ '' trains. '' @
           ''Total delay: '' @ str_nat (nat total_delay) @ ''.0 minutes. '' @
           ''Solution may not be globally optimal due to time constraints.''
      else if st = INFEASIBLE
      then ''No feasible solution found. Consider relaxing constraints, '' @
           ''extending time horizon, or reducing train density.''
      else ''Optimization completed with status: '' @ status_repr st)"

fun calculate_confidence_score :: "OptimizationStatus \<Rightarrow> rat" where
  "calculate_confidence_score OPTIMAL = 1"
| "calculate_confidence_score FEASIBLE = 85 / 100"
| "calculate_confidence_score TIME_LIMIT_EXCEEDED = 75 / 100"
| "calculate_confidence_score st = 0"

text \<open>The library's status constants are small integers and print as such.\<close>

fun status_code :: "cp_status \<Rightarrow> nat" where
  "status_code CP_UNKNOWN = 0"
| "status_code CP_MODEL_INVALID = 1"
| "status_code CP_FEASIBLE = 2"
| "status_code CP_INFEASIBLE = 3"
| "status_code CP_OPTIMAL = 4"

fun get_status_message :: "cp_status \<Rightarrow> string" where
  "get_status_message CP_OPTIMAL = ''Optimal solution found''"
| "get_status_message CP_FEASIBLE = ''Feasible solution found''"
| "get_status_message CP_INFEASIBLE = ''Problem is infeasible''"
| "get_status_message CP_UNKNOWN = ''Solver status unknown''"
| "get_status_message CP_MODEL_INVALID = ''Model is invalid''"

definition default_metrics :: PerformanceMetrics where
  "default_metrics = \<lparr>total_delay_minutes = 0, average_delay_per_train = 0, conflicts_resolved = 0,
     throughput_trains_per_hour = 0, utilization_percent = 0, energy_consumption_kwh = 0,
     platform_changes = 0, passenger_waiting_time_minutes = 0\<rparr>"

definition process_solution :: "Clock \<Rightarrow> (nat \<Rightarrow> int) \<Rightarrow> cp_status \<Rightarrow> Variables \<Rightarrow> OptimizationRequest
    \<Rightarrow> OptimizationResponse result" where
  "process_solution clock a st variables request =
     (let execution_time = elapsed_ms clock;
          opt_status = to_status st
      in if st = CP_OPTIMAL \<or> st = CP_FEASIBLE
         then bindE (foldE (schedule_entry a variables request) (trains request) ([], 0))
                (\<lambda>(optimized_schedule, total_delay).
                  Inr \<lparr>r_request_id = request_id request,
                       status = opt_status,
                       optimized_schedule = optimized_schedule,
                       kpis = calculate_performance_metrics optimized_schedule (trains request) variables,
                       reasoning = generate_reasoning opt_status total_delay (length (trains request)),
                       confidence_score = calculate_confidence_score opt_status,
                       alternatives = [],
                       execution_time_ms = execution_time,
                       completed_at = utcnow clock,
                       error_message = []\<rparr>)
         else Inr \<lparr>r_request_id = request_id request,
                   status = opt_status,
                   optimized_schedule = [],
                   kpis = default_metrics,
                   reasoning = ''Optimization failed with status: '' @ str_nat (status_code st),
                   confidence_score = 0,
                   alternatives = [],
                   execution_time_ms = execution_time,
                   completed_at = utcnow clock,
                   error_message = get_status_message st\<rparr>)"

definition create_error_response :: "Clock \<Rightarrow> OptimizationRequest \<Rightarrow> string \<Rightarrow> OptimizationResponse" where
  "create_error_response clock request error_msg =
     \<lparr>r_request_id = request_id request,
      status = ERROR,
      optimized_schedule = [],
      kpis = default_metrics,
      reasoning = [],
      confidence_score = 0,
      alternatives = [],
      execution_time_ms = elapsed_ms clock,
      completed_at = utcnow clock,
      error_message = error_msg\<rparr>"

section \<open>The pipeline (\<^verbatim>\<open>optimize_schedule\<close>)\<close>

text \<open>The body of the \<^verbatim>\<open>try\<close>: building the model, solving, reading the solution.\<close>

definition try_body :: "Clock \<Rightarrow> ConstraintBuilder \<Rightarrow> solver \<Rightarrow> OptimizationRequest \<Rightarrow> OptimizationResponse result" where
  "try_body clock cb solve request =
     bindE (build_model cb request) (\<lambda>(model, variables).
       (case solve (config request) model of
          Raised e \<Rightarrow> Inl e
        | Solved st a \<Rightarrow> process_solution clock a st variables request))"

definition optimize_schedule :: "Clock \<Rightarrow> ConstraintBuilder \<Rightarrow> solver \<Rightarrow> OptimizationRequest \<Rightarrow> OptimizationResponse" where
  "optimize_schedule clock cb solve request =
     (case try_body clock cb solve request of
        Inr optimization_response \<Rightarrow> optimization_response
      | Inl e \<Rightarrow> create_error_response clock request e)"

section \<open>The priority weights of the objective manager (\<^verbatim>\<open>objectives.py\<close>)\<close>



section \<open>Notions used in the statements\<close>

text \<open>\<open>keeps m m'\<close>: every constraint of \<open>m\<close> is still a constraint of \<open>m'\<close>.\<close>

definition keeps :: "CpModel \<Rightarrow> CpModel \<Rightarrow> bool" where
  "keeps m m' = (set (cp_constraints m) \<subseteq> set (cp_constraints m'))"

text \<open>
  The solver is outside the repository. What the statements about solved schedules
  assume of it is the library's contract for the model of this request: values reported
  with status \<^verbatim>\<open>OPTIMAL\<close> or \<^verbatim>\<open>FEASIBLE\<close> are a solution of the model.
\<close>

definition solver_sound :: "ConstraintBuilder \<Rightarrow> solver \<Rightarrow> OptimizationRequest \<Rightarrow> bool" where
  "solver_sound cb solve request =
     (case build_model cb request of
        Inl e \<Rightarrow> True
      | Inr (model, variables) \<Rightarrow>
          (case solve (config request) model of
             Raised e \<Rightarrow> True
           | Solved st a \<Rightarrow> (st = CP_OPTIMAL \<or> st = CP_FEASIBLE \<longrightarrow> feasible model a)))"

text \<open>\<open>entry_of a variables request train e\<close>: \<open>e\<close> is the entry read for \<open>train\<close> from the values \<open>a\<close>.\<close>

definition entry_of :: "(nat \<Rightarrow> int) \<Rightarrow> Variables \<Rightarrow> OptimizationRequest \<Rightarrow> Train \<Rightarrow> TrainScheduleEntry \<Rightarrow> bool" where
  "entry_of a variables request train e =
     (\<exists>sv ev pv dv.
        map_of (train_start_times variables) (t_id train) = Some sv
      \<and> map_of (train_end_times variables) (t_id train) = Some ev
      \<and> map_of (platform_assignments variables) (t_id train) = Some pv
      \<and> map_of (train_delays variables) (t_id train) = Some dv
      \<and> e = \<lparr>train_id = t_id train,
               e_train_number = train_number train,
               e_scheduled_departure = requested_at request + a sv * minute,
               e_scheduled_arrival = requested_at request + a ev * minute,
               platform = a pv,
               priority_applied = priority train,
               delay_adjustment_minutes = a dv,
               e_conflicts_resolved = [],
               speed_profile = generate_speed_profile a variables train\<rparr>)"


text \<open>\<open>solves cb request a\<close>: the model is built for the request and \<open>a\<close> is a solution of it.\<close>

definition solves :: "ConstraintBuilder \<Rightarrow> OptimizationRequest \<Rightarrow> (nat \<Rightarrow> int) \<Rightarrow> bool" where
  "solves cb request a = (case build_model cb request of Inr (model, variables) \<Rightarrow> feasible model a | Inl e \<Rightarrow> False)"



text \<open>The train identifiers that have a variable in each of the four dictionaries of a train.\<close>

definition train_keys :: "Variables \<Rightarrow> string set" where
  "train_keys vs = dom (map_of (train_start_times vs)) \<inter> dom (map_of (train_end_times vs))
     \<inter> dom (map_of (platform_assignments vs)) \<inter> dom (map_of (train_delays vs))"

section \<open>Concrete requests\<close>

definition default_characteristics :: TrainCharacteristics where
  "default_characteristics = \<lparr>acceleration_ms2 = 1, deceleration_ms2 = 12 / 10, power_kw = 2000,
     weight_tons = 400, passenger_load_percent = 70, is_electric = True, required_platforms = []\<rparr>"

definition default_config :: OptimizationConfig where
  "default_config = \<lparr>max_solver_time_seconds = 30, enable_preprocessing = True,
     num_search_workers = 4, strategy = ''AUTOMATIC'', enable_detailed_logging = False\<rparr>"

definition the_clock :: Clock where
  "the_clock = \<lparr>elapsed_ms = 12, utcnow = 1000\<rparr>"

text \<open>A handler that adds nothing and returns, as the handler for train priority does.\<close>

definition silent :: handler where
  "silent = (\<lambda>model variables constraint. (([], []), None))"

definition silent_builder :: ConstraintBuilder where
  "silent_builder = \<lparr>add_safety_distance_constraint = silent, add_platform_capacity_constraint = silent,
     add_train_priority_constraint = silent, add_maintenance_window_constraint = silent,
     add_speed_limit_constraint = silent, add_crossing_time_constraint = silent,
     add_signal_spacing_constraint = silent, add_energy_efficiency_constraint = silent,
     add_passenger_transfer_constraint = silent\<rparr>"

text \<open>
  Two trains on the same section between the same stations, five minutes apart, as in
  the test \<^verbatim>\<open>test_optimization_with_conflicting_trains\<close> (with a shorter route and
  horizon), and values that solve the model built for them.
\<close>

definition conflict_train_1 :: Train where
  "conflict_train_1 = \<lparr>t_id = ''T1'', train_number = 11001, train_type = Member TT_EXPRESS,
     priority = Member EXPRESS, capacity_passengers = 500, length_meters = 200, max_speed_kmh = 120,
     scheduled_departure = 0, scheduled_arrival = 60 * minute, origin_station = ''StationA'',
     destination_station = ''StationB'', route_sections = [''S1''],
     characteristics = default_characteristics\<rparr>"

definition conflict_train_2 :: Train where
  "conflict_train_2 = \<lparr>t_id = ''T2'', train_number = 11002, train_type = Member TT_PASSENGER,
     priority = Member PASSENGER, capacity_passengers = 600, length_meters = 180, max_speed_kmh = 100,
     scheduled_departure = 5 * minute, scheduled_arrival = 75 * minute, origin_station = ''StationA'',
     destination_station = ''StationB'', route_sections = [''S1''],
     characteristics = default_characteristics\<rparr>"

definition conflict_request :: OptimizationRequest where
  "conflict_request = \<lparr>request_id = ''TEST_CONFLICT'', section_id = ''TEST_SECTION'',
     time_horizon_minutes = 15, trains = [conflict_train_1, conflict_train_2], constraints = [],
     objective = \<lparr>primary_objective = Member MINIMIZE_DELAY, secondary_objectives = [],
       time_limit_seconds = 30, o_enable_preprocessing = True\<rparr>,
     disruptions = [], requested_at = 0, config = default_config\<rparr>"

definition conflict_values :: "nat \<Rightarrow> int" where
  "conflict_values v = (if v = 1 then 7 else if v = 2 then 1 else if v = 4 \<or> v = 9 then 20
     else if v = 5 then 5 else if v = 6 then 12 else if v = 7 then 2 else 0)"

definition conflict_solver :: solver where
  "conflict_solver = (\<lambda>cfg model. Solved CP_OPTIMAL conflict_values)"

text \<open>The same two trains with a horizon of zero minutes: no schedule fits.\<close>

definition zero_horizon_request :: OptimizationRequest where
  "zero_horizon_request = conflict_request\<lparr>time_horizon_minutes := 0\<rparr>"

definition infeasible_solver :: solver where
  "infeasible_solver = (\<lambda>cfg model. Solved CP_INFEASIBLE (\<lambda>v. 0))"

text \<open>
  The request of the test \<^verbatim>\<open>test_error_handling\<close>: a horizon of zero minutes and no
  trains. The test expects status \<^verbatim>\<open>ERROR\<close> with a message.
\<close>

definition test_error_request :: OptimizationRequest where
  "test_error_request = \<lparr>request_id = ''INVALID_REQ'', section_id = [],
     time_horizon_minutes = 0, trains = [], constraints = [],
     objective = \<lparr>primary_objective = Member MINIMIZE_DELAY, secondary_objectives = [],
       time_limit_seconds = 30, o_enable_preprocessing = True\<rparr>,
     disruptions = [], requested_at = 0, config = default_config\<rparr>"

definition zero_values :: "nat \<Rightarrow> int" where
  "zero_values v = 0"

definition trivial_solver :: solver where
  "trivial_solver = (\<lambda>cfg model. Solved CP_OPTIMAL (\<lambda>v. 0))"

text \<open>A solver that runs out of time, and one that faults.\<close>

definition unknown_solver :: solver where
  "unknown_solver = (\<lambda>cfg model. Solved CP_UNKNOWN (\<lambda>v. 0))"

definition faulty_solver :: solver where
  "faulty_solver = (\<lambda>cfg model. Raised ''solver fault'')"

text \<open>The two conflicting trains, the second one with a maximum speed of zero.\<close>

definition stalled_request :: OptimizationRequest where
  "stalled_request = conflict_request\<lparr>trains := [conflict_train_1, conflict_train_2\<lparr>max_speed_kmh := 0\<rparr>]\<rparr>"

text \<open>
  A local train scheduled at the reference time and, listed after it, an express
  scheduled forty minutes later on the same section; the priorities once as members of
  the Enum and once as names. With a horizon of twenty minutes the express, which can
  leave thirty minutes early at most, cannot leave before the local train.
\<close>

definition local_train :: Train where
  "local_train = \<lparr>t_id = ''LOCAL'', train_number = 51001, train_type = Member TT_PASSENGER,
     priority = Member PASSENGER, capacity_passengers = 600, length_meters = 180, max_speed_kmh = 100,
     scheduled_departure = 0, scheduled_arrival = 60 * minute, origin_station = ''StationA'',
     destination_station = ''StationB'', route_sections = [''S1''],
     characteristics = default_characteristics\<rparr>"

definition express_train :: Train where
  "express_train = \<lparr>t_id = ''EXP'', train_number = 12001, train_type = Member TT_EXPRESS,
     priority = Member EXPRESS, capacity_passengers = 500, length_meters = 200, max_speed_kmh = 120,
     scheduled_departure = 40 * minute, scheduled_arrival = 100 * minute, origin_station = ''StationA'',
     destination_station = ''StationB'', route_sections = [''S1''],
     characteristics = default_characteristics\<rparr>"

definition inversion_request :: OptimizationRequest where
  "inversion_request = \<lparr>request_id = ''REQ_PRIORITY'', section_id = ''SEC001'',
     time_horizon_minutes = 20, trains = [local_train, express_train], constraints = [],
     objective = \<lparr>primary_objective = Member MINIMIZE_DELAY, secondary_objectives = [],
       time_limit_seconds = 30, o_enable_preprocessing = True\<rparr>,
     disruptions = [], requested_at = 0, config = default_config\<rparr>"

definition inversion_request_named :: OptimizationRequest where
  "inversion_request_named = inversion_request\<lparr>trains :=
     [local_train\<lparr>priority := Str ''PASSENGER''\<rparr>, express_train\<lparr>priority := Str ''EXPRESS''\<rparr>]\<rparr>"

definition inversion_values :: "nat \<Rightarrow> int" where
  "inversion_values v = (if v = 1 then 7 else if v = 2 then 1 else if v = 4 \<or> v = 9 then 20
     else if v = 5 then 10 else if v = 6 then 17 else if v = 7 then 2 else if v = 8 then - 30 else 0)"

definition inversion_solver :: solver where
  "inversion_solver = (\<lambda>cfg model. Solved CP_OPTIMAL inversion_values)"

text \<open>
  A builder whose handler for safety distance raises and whose handler for speed limits
  adds a constraint, and a request with four constraints: one of a kind that is not
  registered, one whose kind is a member of the Enum (as the tests build them), one
  whose handler raises, and one that is applied.
\<close>

definition raising :: handler where
  "raising = (\<lambda>model variables constraint.
     (([], []), Some ''invalid literal for int() with base 10''))"

definition limiting :: handler where
  "limiting = (\<lambda>model variables constraint. (([], [Linear (V 4) LE (K 60) []]), None))"

definition picky_builder :: ConstraintBuilder where
  "picky_builder = silent_builder\<lparr>add_safety_distance_constraint := raising,
     add_speed_limit_constraint := limiting\<rparr>"

definition unknown_kind :: Constraint where
  "unknown_kind = \<lparr>c_id = ''c1'', c_type = Str ''TRACK_GAUGE'', c_priority = 1,
     parameters = [], is_hard_constraint = True\<rparr>"

definition enum_kind :: Constraint where
  "enum_kind = \<lparr>c_id = ''safety_1'', c_type = Member SAFETY_DISTANCE, c_priority = 1,
     parameters = [(''min_distance_seconds'', ''300'')], is_hard_constraint = True\<rparr>"

definition malformed :: Constraint where
  "malformed = \<lparr>c_id = ''safety_2'', c_type = Str ''SAFETY_DISTANCE'', c_priority = 1,
     parameters = [(''min_distance_seconds'', ''five minutes'')], is_hard_constraint = True\<rparr>"

definition speed_limit :: Constraint where
  "speed_limit = \<lparr>c_id = ''speed_1'', c_type = Str ''SPEED_LIMIT'', c_priority = 2,
     parameters = [(''sections'', ''S1''), (''max_speed_kmh'', ''60'')], is_hard_constraint = True\<rparr>"

definition custom_request :: OptimizationRequest where
  "custom_request = conflict_request\<lparr>constraints := [unknown_kind, enum_kind, malformed, speed_limit]\<rparr>"

text \<open>The two conflicting trains with their priorities given by name, the express listed first.\<close>

definition named_conflict_request :: OptimizationRequest where
  "named_conflict_request = conflict_request\<lparr>trains :=
     [conflict_train_1\<lparr>priority := Str ''EXPRESS''\<rparr>, conflict_train_2\<lparr>priority := Str ''PASSENGER''\<rparr>]\<rparr>"

section \<open>Facts about the building blocks\<close>

lemma bindE_Inr [simp]: "bindE (Inr x) f = f x"
  by (simp add: bindE_def)

lemma bindE_Inl [simp]: "bindE (Inl e) f = Inl e"
  by (simp add: bindE_def)

lemma bindE_eq_Inr: "bindE r f = Inr y \<longleftrightarrow> (\<exists>x. r = Inr x \<and> f x = Inr y)"
  by (cases r) auto

lemma getitem_eq_Inr: "getitem d k = Inr v \<longleftrightarrow> map_of d k = Some v"
  by (simp add: getitem_def split: option.splits)

lemma keeps_refl [simp]: "keeps m m"
  by (simp add: keeps_def)

lemma keeps_trans: "keeps m1 m2 \<Longrightarrow> keeps m2 m3 \<Longrightarrow> keeps m1 m3"
  by (auto simp: keeps_def)

lemma constraints_Add [simp]: "cp_constraints (Add m c) = cp_constraints m @ [c]"
  by (simp add: Add_def)

lemma constraints_NewIntVar [simp]: "cp_constraints (fst (NewIntVar m lb ub)) = cp_constraints m"
  by (simp add: NewIntVar_def)

lemma constraints_NewBoolVar [simp]: "cp_constraints (fst (NewBoolVar m)) = cp_constraints m"
  by (simp add: NewBoolVar_def)

lemma keeps_Add: "keeps m m' \<Longrightarrow> keeps m (Add m' c)"
  by (auto simp: keeps_def)

lemma keeps_NewIntVar: "keeps m m' \<Longrightarrow> keeps m (fst (NewIntVar m' lb ub))"
  by (auto simp: keeps_def)

lemma keeps_NewBoolVar: "keeps m m' \<Longrightarrow> keeps m (fst (NewBoolVar m'))"
  by (auto simp: keeps_def)

lemma foldE_keeps:
  assumes "\<And>x s s'. f x s = Inr s' \<Longrightarrow> keeps (g s) (g s')"
    and "foldE f xs s = Inr s'"
  shows "keeps (g s) (g s')"
  using assms(2)
proof (induction xs arbitrary: s)
  case Nil
  then show ?case by simp
next
  case (Cons x xs)
  then obtain s1 where "f x s = Inr s1" "foldE f xs s1 = Inr s'"
    by (auto simp: bindE_eq_Inr)
  then show ?case
    using assms(1) Cons.IH keeps_trans by blast
qed

lemma foldE_visits:
  assumes "\<And>x s s'. f x s = Inr s' \<Longrightarrow> keeps (g s) (g s')"
    and "foldE f xs s = Inr s'" and "x \<in> set xs"
  shows "\<exists>s1 s2. f x s1 = Inr s2 \<and> keeps (g s2) (g s')"
  using assms(2,3)
proof (induction xs arbitrary: s)
  case Nil
  then show ?case by simp
next
  case (Cons y ys)
  then obtain s1 where s1: "f y s = Inr s1" "foldE f ys s1 = Inr s'"
    by (auto simp: bindE_eq_Inr)
  show ?case
  proof (cases "x = y")
    case True
    then show ?thesis
      using s1 foldE_keeps [of f g ys s1 s'] assms(1) by blast
  next
    case False
    then show ?thesis
      using Cons s1 by auto
  qed
qed

lemma fold_keeps:
  assumes "\<And>x s. keeps (g s) (g (f x s))"
  shows "keeps (g s) (g (fold f xs s))"
proof (induction xs arbitrary: s)
  case Nil
  then show ?case by simp
next
  case (Cons x xs)
  then show ?case
    using assms keeps_trans by fastforce
qed

lemma pairs_nth: "i < j \<Longrightarrow> j < length xs \<Longrightarrow> (xs ! i, xs ! j) \<in> set (pairs xs)"
proof (induction xs arbitrary: i j)
  case Nil
  then show ?case by simp
next
  case (Cons x xs)
  show ?case
  proof (cases i)
    case 0
    then show ?thesis using Cons.prems by (cases j) auto
  next
    case (Suc i')
    then obtain j' where "j = Suc j'" using Cons.prems by (cases j) auto
    then show ?thesis using Suc Cons by auto
  qed
qed

subsection \<open>Every stage keeps the constraints already in the model\<close>

lemma timing_constraint_keeps:
  "timing_constraint vs req t m = Inr m' \<Longrightarrow> keeps m m'"
  by (auto simp: timing_constraint_def bindE_eq_Inr Let_def keeps_def)

lemma add_timing_constraints_keeps:
  "add_timing_constraints m vs req = Inr m' \<Longrightarrow> keeps m m'"
  unfolding add_timing_constraints_def
  using foldE_keeps [of "timing_constraint vs req" "\<lambda>m. m"] timing_constraint_keeps by blast



lemma headway_adds:
  assumes "add_headway_constraint vs t1 t2 h m = Inr m'"
  shows "\<exists>s1 s2 b. map_of (train_start_times vs) (t_id t1) = Some s1
           \<and> map_of (train_start_times vs) (t_id t2) = Some s2
           \<and> cp_constraints m' = cp_constraints m @
                [Linear (V s1) GE (Plus (V s2) (K h)) [Pos b],
                 Linear (V s2) GE (Plus (V s1) (K h)) [Neg b]]"
  using assms
  by (auto simp: add_headway_constraint_def bindE_eq_Inr getitem_eq_Inr Let_def
      NewBoolVar_def NewIntVar_def Add_def split: prod.splits)

lemma safety_step_keeps: "safety_step vs p m = Inr m' \<Longrightarrow> keeps m m'"
  by (cases p) (auto simp: safety_step_def keeps_def dest!: headway_adds split: if_splits)

lemma priority_step_keeps: "priority_step vs p m = Inr m' \<Longrightarrow> keeps m m'"
  by (cases p) (auto simp: priority_step_def keeps_def Let_def bindE_eq_Inr split: if_splits)

lemma add_priority_constraints_keeps:
  "add_priority_constraints m vs req = Inr m' \<Longrightarrow> keeps m m'"
  unfolding add_priority_constraints_def
  using foldE_keeps [of "priority_step vs" "\<lambda>m. m"] priority_step_keeps by blast


lemma route_step_keeps: "keeps (fst s) (fst (route_step h section s))"
  by (cases s) (auto simp: route_step_def keeps_def Let_def NewIntVar_def Add_def split: prod.splits)

lemma add_route_constraints_keeps: "keeps m (add_route_constraints m vs req)"
proof -
  have "\<And>t s. keeps s (fst (fold (route_step (time_horizon_minutes req)) (route_sections t) (s, [])))"
    using fold_keeps [of fst "route_step (time_horizon_minutes req)", OF route_step_keeps] by force
  then show ?thesis
    unfolding add_route_constraints_def
    using fold_keeps [of "\<lambda>m. m" "\<lambda>train m. fst (fold (route_step (time_horizon_minutes req)) (route_sections train) (m, []))"]
    by blast
qed

lemma run_handler_keeps: "run_handler h m vs c = (m', r) \<Longrightarrow> keeps m m'"
  by (auto simp: run_handler_def keeps_def split: prod.splits)

lemma add_constraint_keeps: "keeps m (snd (add_constraint cb m vs c))"
  by (auto simp: add_constraint_def Let_def dest: run_handler_keeps
      split: pyval.splits option.splits prod.splits)

lemma add_custom_constraints_keeps: "keeps m (add_custom_constraints cb m vs req)"
  unfolding add_custom_constraints_def
  using fold_keeps [of "\<lambda>m. m" "\<lambda>constraint m. snd (add_constraint cb m vs constraint)"] add_constraint_keeps
  by blast

lemma constraints_set_Minimize [simp]: "cp_constraints (set_Minimize m e) = cp_constraints m"
  by (simp add: set_Minimize_def)

lemma constraints_set_Maximize [simp]: "cp_constraints (set_Maximize m e) = cp_constraints m"
  by (simp add: set_Maximize_def)

lemma minimize_total_delay_keeps: "minimize_total_delay m vs req = Inr m' \<Longrightarrow> keeps m m'"
  by (auto simp: minimize_total_delay_def bindE_eq_Inr keeps_def)

lemma on_time_step_keeps: "on_time_step vs t s = Inr s' \<Longrightarrow> keeps (fst s) (fst s')"
  by (cases s) (auto simp: on_time_step_def bindE_eq_Inr Let_def keeps_def NewBoolVar_def
      NewIntVar_def Add_def split: prod.splits)

lemma balanced_step_keeps: "balanced_step vs t s = Inr s' \<Longrightarrow> keeps (fst s) (fst s')"
  by (cases s) (auto simp: balanced_step_def bindE_eq_Inr Let_def keeps_def NewBoolVar_def
      NewIntVar_def Add_def split: prod.splits)

lemma set_objective_keeps:
  assumes "set_objective m vs req = Inr m'"
  shows "keeps m m'"
proof -
  have a: "\<And>s'. foldE (on_time_step vs) (trains req) (m, []) = Inr s' \<Longrightarrow> keeps m (fst s')"
    using foldE_keeps [of "on_time_step vs" fst] on_time_step_keeps by fastforce
  have b: "\<And>s'. foldE (balanced_step vs) (trains req) (m, [], []) = Inr s' \<Longrightarrow> keeps m (fst s')"
    using foldE_keeps [of "balanced_step vs" fst] balanced_step_keeps by fastforce
  show ?thesis
    using assms minimize_total_delay_keeps [of m vs req m']
    by (auto simp: set_objective_def bindE_eq_Inr Let_def keeps_def dest!: a b split: if_splits)
qed


subsection \<open>The model that is solved and the response read from its solution\<close>

lemma keeps_mem: "keeps m m' \<Longrightarrow> c \<in> set (cp_constraints m) \<Longrightarrow> c \<in> set (cp_constraints m')"
  by (auto simp: keeps_def)

lemma feasible_sat: "feasible m a \<Longrightarrow> c \<in> set (cp_constraints m) \<Longrightarrow> sat a c"
  by (simp add: feasible_def list_all_iff)

lemma build_model_chain:
  assumes "build_model cb req = Inr (m, vs)"
  shows "\<exists>m0 m1 m2 m3 m4.
           create_decision_variables empty_model req = (m0, vs)
         \<and> add_timing_constraints m0 vs req = Inr m1
         \<and> add_platform_constraints m1 vs req = Inr m2
         \<and> add_safety_constraints m2 vs req = Inr m3
         \<and> add_priority_constraints m3 vs req = Inr m4
         \<and> set_objective (add_custom_constraints cb (add_route_constraints m4 vs req) vs req) vs req = Inr m"
  using assms
  by (auto simp: build_model_def add_constraints_def bindE_eq_Inr Let_def split: prod.splits)


lemma build_model_keeps_safety:
  assumes "build_model cb req = Inr (m, vs)"
  shows "\<exists>m2 m3. add_safety_constraints m2 vs req = Inr m3 \<and> keeps m3 m"
proof -
  from build_model_chain [OF assms] obtain m0 m1 m2 m3 m4 where c:
    "add_safety_constraints m2 vs req = Inr m3"
    "add_priority_constraints m3 vs req = Inr m4"
    "set_objective (add_custom_constraints cb (add_route_constraints m4 vs req) vs req) vs req = Inr m"
    by blast
  have "keeps m3 m4" using c(2) by (rule add_priority_constraints_keeps)
  moreover have "keeps m4 (add_route_constraints m4 vs req)" by (rule add_route_constraints_keeps)
  moreover have "keeps (add_route_constraints m4 vs req)
      (add_custom_constraints cb (add_route_constraints m4 vs req) vs req)"
    by (rule add_custom_constraints_keeps)
  moreover have "keeps (add_custom_constraints cb (add_route_constraints m4 vs req) vs req) m"
    using c(3) by (rule set_objective_keeps)
  ultimately have "keeps m3 m" by (blast intro: keeps_trans)
  with c(1) show ?thesis by blast
qed


lemma schedule_entry_step:
  assumes "schedule_entry a vs req t (acc, td) = Inr (sched, td')"
  shows "\<exists>e. sched = acc @ [e] \<and> entry_of a vs req t e"
  using assms
  by (auto simp: schedule_entry_def bindE_eq_Inr getitem_eq_Inr Let_def entry_of_def)

lemma schedule_entries:
  assumes "foldE (schedule_entry a vs req) ts (acc, td) = Inr (sched, td')"
  shows "\<exists>new. sched = acc @ new \<and> list_all2 (entry_of a vs req) ts new"
  using assms
proof (induction ts arbitrary: acc td)
  case Nil
  then show ?case by simp
next
  case (Cons t ts)
  then obtain acc1 td1 where s: "schedule_entry a vs req t (acc, td) = Inr (acc1, td1)"
      "foldE (schedule_entry a vs req) ts (acc1, td1) = Inr (sched, td')"
    by (auto simp: bindE_eq_Inr)
  from schedule_entry_step [OF s(1)] obtain e where e: "acc1 = acc @ [e]" "entry_of a vs req t e"
    by blast
  from Cons.IH [OF s(2)] obtain new where "sched = acc1 @ new" "list_all2 (entry_of a vs req) ts new"
    by blast
  with e have "sched = acc @ (e # new) \<and> list_all2 (entry_of a vs req) (t # ts) (e # new)"
    by simp
  then show ?case by blast
qed

lemma solved_response:
  assumes "status (optimize_schedule clock cb solve req) = OPTIMAL
         \<or> status (optimize_schedule clock cb solve req) = FEASIBLE"
  shows "\<exists>m vs st a sched.
           build_model cb req = Inr (m, vs)
         \<and> solve (config req) m = Solved st a
         \<and> (st = CP_OPTIMAL \<or> st = CP_FEASIBLE)
         \<and> list_all2 (entry_of a vs req) (trains req) sched
         \<and> optimized_schedule (optimize_schedule clock cb solve req) = sched
         \<and> kpis (optimize_schedule clock cb solve req)
             = calculate_performance_metrics sched (trains req) vs
         \<and> status (optimize_schedule clock cb solve req) = to_status st"
proof (cases "build_model cb req")
  case (Inl e)
  then show ?thesis
    using assms by (simp add: optimize_schedule_def try_body_def create_error_response_def)
next
  case (Inr mv)
  obtain m vs where mv: "mv = (m, vs)" by (cases mv)
  show ?thesis
  proof (cases "solve (config req) m")
    case (Raised e)
    then show ?thesis
      using assms Inr mv by (simp add: optimize_schedule_def try_body_def create_error_response_def)
  next
    case (Solved st a)
    show ?thesis
    proof (cases "st = CP_OPTIMAL \<or> st = CP_FEASIBLE")
      case False
      then show ?thesis
        using assms Inr mv Solved
        by (cases st) (simp_all add: optimize_schedule_def try_body_def process_solution_def)
    next
      case True
      show ?thesis
      proof (cases "foldE (schedule_entry a vs req) (trains req) ([], 0)")
        case (Inl e)
        then show ?thesis
          using assms Inr mv Solved True
          by (auto simp: optimize_schedule_def try_body_def process_solution_def
              create_error_response_def)
      next
        case r: (Inr res)
        obtain sched td where res: "res = (sched, td)" by (cases res)
        from schedule_entries [of a vs req "trains req" "[]" 0 sched td] r res
        have "list_all2 (entry_of a vs req) (trains req) sched" by simp
        then show ?thesis
          using Inr mv Solved True r res
          by (auto simp: optimize_schedule_def try_body_def process_solution_def)
      qed
    qed
  qed
qed

lemma unsolved_response:
  assumes "status (optimize_schedule clock cb solve req) \<noteq> OPTIMAL"
    and "status (optimize_schedule clock cb solve req) \<noteq> FEASIBLE"
  shows "optimized_schedule (optimize_schedule clock cb solve req) = []"
proof (cases "try_body clock cb solve req")
  case (Inl e)
  then show ?thesis by (simp add: optimize_schedule_def create_error_response_def)
next
  case (Inr r)
  then obtain m vs where "build_model cb req = Inr (m, vs)"
      and c: "(case solve (config req) m of Raised e \<Rightarrow> Inl e
               | Solved st a \<Rightarrow> process_solution clock a st vs req) = Inr r"
    by (auto simp: try_body_def bindE_eq_Inr)
  from c obtain st a where p: "process_solution clock a st vs req = Inr r"
    by (cases "solve (config req) m") auto
  have "status r = to_status st \<and> (st \<noteq> CP_OPTIMAL \<and> st \<noteq> CP_FEASIBLE \<longrightarrow> optimized_schedule r = [])"
    using p by (auto simp: process_solution_def Let_def bindE_eq_Inr split: if_splits)
  moreover have "optimize_schedule clock cb solve req = r"
    using Inr by (simp add: optimize_schedule_def)
  ultimately show ?thesis
    using assms by (cases st) auto
qed

lemma sound_feasible:
  assumes "solver_sound cb solve req" "build_model cb req = Inr (m, vs)"
    "solve (config req) m = Solved st a" "st = CP_OPTIMAL \<or> st = CP_FEASIBLE"
  shows "feasible m a"
  using assms by (auto simp: solver_sound_def)

lemma entry_of_start:
  assumes "entry_of a vs req t e" "map_of (train_start_times vs) (t_id t) = Some sv"
  shows "e_scheduled_departure e = requested_at req + a sv * minute"
  using assms by (auto simp: entry_of_def)


subsection \<open>A run of the pipeline on the two conflicting trains\<close>

lemma conflict_run:
  "optimize_schedule the_clock silent_builder conflict_solver conflict_request =
     \<lparr>r_request_id = ''TEST_CONFLICT'', status = OPTIMAL,
      optimized_schedule =
        [\<lparr>train_id = ''T1'', e_train_number = 11001,
          e_scheduled_departure = 0, e_scheduled_arrival = 420000000,
          platform = 1, priority_applied = Member EXPRESS,
          delay_adjustment_minutes = 0, e_conflicts_resolved = [],
          speed_profile = [\<lparr>position_km = 0, speed_kmh = 20, time_offset_minutes = 0\<rparr>]\<rparr>,
         \<lparr>train_id = ''T2'', e_train_number = 11002,
          e_scheduled_departure = 300000000, e_scheduled_arrival = 720000000,
          platform = 2, priority_applied = Member PASSENGER,
          delay_adjustment_minutes = 0, e_conflicts_resolved = [],
          speed_profile = [\<lparr>position_km = 0, speed_kmh = 20, time_offset_minutes = 0\<rparr>]\<rparr>],
      kpis = \<lparr>total_delay_minutes = 0, average_delay_per_train = 0, conflicts_resolved = 0,
         throughput_trains_per_hour = 1, utilization_percent = 10,
         energy_consumption_kwh = 980 / 3, platform_changes = 2,
         passenger_waiting_time_minutes = 0\<rparr>,
      reasoning = ''Found optimal solution for 2 trains. Total delay minimized to 0.0 minutes. All constraints satisfied.'',
      confidence_score = 1, alternatives = [], execution_time_ms = 12,
      completed_at = 1000, error_message = []\<rparr>"
  by code_simp

lemma conflict_status:
  "status (optimize_schedule the_clock silent_builder conflict_solver conflict_request) = OPTIMAL"
  by (simp add: conflict_run)

lemma conflict_sound: "solver_sound silent_builder conflict_solver conflict_request"
  by code_simp

lemma conflict_shared:
  "set (route_sections (trains conflict_request ! 0)) \<inter> set (route_sections (trains conflict_request ! 1)) \<noteq> {}"
  by (simp add: conflict_request_def conflict_train_1_def conflict_train_2_def)

lemma conflict_length: "1 < length (trains conflict_request)"
  by (simp add: conflict_request_def)

lemma zero_horizon_run:
  "status (optimize_schedule the_clock silent_builder infeasible_solver zero_horizon_request) = INFEASIBLE"
  by code_simp

section \<open>The claims\<close>

text \<open>
  C2. In every solved schedule (status \<^verbatim>\<open>OPTIMAL\<close> or \<^verbatim>\<open>FEASIBLE\<close>, the solver keeping
  its contract), any two trains of the request that share a route section
  have resolved departures at least five minutes apart.
\<close>

theorem headway_between_sharing_trains:
  assumes solved: "status (optimize_schedule clock cb solve req) = OPTIMAL
         \<or> status (optimize_schedule clock cb solve req) = FEASIBLE"
    and sound: "solver_sound cb solve req"
    and ij: "i < j" "j < length (trains req)"
    and shared: "set (route_sections (trains req ! i)) \<inter> set (route_sections (trains req ! j)) \<noteq> {}"
  shows "5 * minute \<le> \<bar>e_scheduled_departure (optimized_schedule (optimize_schedule clock cb solve req) ! i)
                      - e_scheduled_departure (optimized_schedule (optimize_schedule clock cb solve req) ! j)\<bar>"
proof -
  let ?r = "optimize_schedule clock cb solve req"
  let ?ti = "trains req ! i" and ?tj = "trains req ! j"
  from solved_response [OF solved] obtain m vs st a sched where r:
    "build_model cb req = Inr (m, vs)" "solve (config req) m = Solved st a"
    "st = CP_OPTIMAL \<or> st = CP_FEASIBLE" "list_all2 (entry_of a vs req) (trains req) sched"
    "optimized_schedule ?r = sched"
    by blast
  have feas: "feasible m a" using sound r(1-3) by (rule sound_feasible)
  from build_model_keeps_safety [OF r(1)] obtain m2 m3 where
    s: "add_safety_constraints m2 vs req = Inr m3" "keeps m3 m" by blast
  have "(?ti, ?tj) \<in> set (pairs (trains req))" using ij by (rule pairs_nth)
  with s(1) obtain s1 s2 where step: "safety_step vs (?ti, ?tj) s1 = Inr s2" "keeps s2 m3"
    unfolding add_safety_constraints_def
    using foldE_visits [of "safety_step vs" "\<lambda>m. m" "pairs (trains req)" m2 m3 "(?ti, ?tj)"]
      safety_step_keeps by blast
  from step(1) shared have "add_headway_constraint vs ?ti ?tj 5 s1 = Inr s2"
    by (simp add: safety_step_def shared_sections_def)
  from headway_adds [OF this] obtain vi vj b where h:
    "map_of (train_start_times vs) (t_id ?ti) = Some vi"
    "map_of (train_start_times vs) (t_id ?tj) = Some vj"
    "cp_constraints s2 = cp_constraints s1 @
       [Linear (V vi) GE (Plus (V vj) (K 5)) [Pos b], Linear (V vj) GE (Plus (V vi) (K 5)) [Neg b]]"
    by blast
  have k: "keeps s2 m" using step(2) s(2) by (rule keeps_trans)
  have "Linear (V vi) GE (Plus (V vj) (K 5)) [Pos b] \<in> set (cp_constraints s2)"
    by (simp add: h(3))
  then have "sat a (Linear (V vi) GE (Plus (V vj) (K 5)) [Pos b])"
    using feas k by (blast intro: feasible_sat keeps_mem)
  moreover have "Linear (V vj) GE (Plus (V vi) (K 5)) [Neg b] \<in> set (cp_constraints s2)"
    by (simp add: h(3))
  then have "sat a (Linear (V vj) GE (Plus (V vi) (K 5)) [Neg b])"
    using feas k by (blast intro: feasible_sat keeps_mem)
  ultimately have gap: "5 \<le> \<bar>a vi - a vj\<bar>"
    by (cases "a b = 0") auto
  have "i < length (trains req)" using ij by simp
  then have "entry_of a vs req ?ti (sched ! i)" using r(4) by (simp add: list_all2_nthD)
  then have di: "e_scheduled_departure (sched ! i) = requested_at req + a vi * minute"
    using h(1) by (rule entry_of_start)
  have "entry_of a vs req ?tj (sched ! j)" using r(4) ij(2) by (simp add: list_all2_nthD)
  then have dj: "e_scheduled_departure (sched ! j) = requested_at req + a vj * minute"
    using h(2) by (rule entry_of_start)
  have "e_scheduled_departure (sched ! i) - e_scheduled_departure (sched ! j) = (a vi - a vj) * minute"
    unfolding di dj by (simp add: left_diff_distrib)
  then have "\<bar>e_scheduled_departure (sched ! i) - e_scheduled_departure (sched ! j)\<bar>
      = \<bar>a vi - a vj\<bar> * \<bar>minute\<bar>"
    by (simp only: abs_mult)
  with gap show ?thesis
    unfolding r(5) by (simp add: minute_def)
qed

theorem headway_between_sharing_trains_witness:
  "status (optimize_schedule the_clock silent_builder conflict_solver conflict_request) = OPTIMAL
   \<and> solver_sound silent_builder conflict_solver conflict_request
   \<and> (0::nat) < 1 \<and> 1 < length (trains conflict_request)
   \<and> set (route_sections (trains conflict_request ! 0)) \<inter> set (route_sections (trains conflict_request ! 1)) \<noteq> {}
   \<and> 5 * minute \<le> \<bar>e_scheduled_departure (optimized_schedule (optimize_schedule the_clock silent_builder conflict_solver conflict_request) ! 0)
                      - e_scheduled_departure (optimized_schedule (optimize_schedule the_clock silent_builder conflict_solver conflict_request) ! 1)\<bar>"
proof -
  note t = headway_between_sharing_trains
    [OF disjI1 [OF conflict_status] conflict_sound zero_less_one conflict_length conflict_shared]
  show ?thesis
    using conflict_status conflict_sound conflict_length conflict_shared t by blast
qed



text \<open>
  C3. When the status of the response is \<^verbatim>\<open>OPTIMAL\<close> or \<^verbatim>\<open>FEASIBLE\<close>, the optimized
  schedule has exactly one entry per train of the request, in the order of the request;
  when the status is \<^verbatim>\<open>INFEASIBLE\<close> or \<^verbatim>\<open>ERROR\<close>, the optimized schedule is empty.
\<close>

theorem schedule_one_entry_per_train:
  "(status (optimize_schedule clock cb solve req) = OPTIMAL
      \<or> status (optimize_schedule clock cb solve req) = FEASIBLE
    \<longrightarrow> list_all2 (\<lambda>t e. train_id e = t_id t \<and> e_train_number e = train_number t
                        \<and> priority_applied e = priority t)
          (trains req) (optimized_schedule (optimize_schedule clock cb solve req)))
   \<and> (status (optimize_schedule clock cb solve req) = INFEASIBLE
      \<or> status (optimize_schedule clock cb solve req) = ERROR
    \<longrightarrow> optimized_schedule (optimize_schedule clock cb solve req) = [])"
proof (intro conjI impI)
  assume "status (optimize_schedule clock cb solve req) = OPTIMAL
      \<or> status (optimize_schedule clock cb solve req) = FEASIBLE"
  from solved_response [OF this] obtain a vs sched where
    "list_all2 (entry_of a vs req) (trains req) sched"
    "optimized_schedule (optimize_schedule clock cb solve req) = sched"
    by blast
  then show "list_all2 (\<lambda>t e. train_id e = t_id t \<and> e_train_number e = train_number t
                        \<and> priority_applied e = priority t)
          (trains req) (optimized_schedule (optimize_schedule clock cb solve req))"
    by (auto simp: entry_of_def elim!: list_all2_mono)
next
  assume "status (optimize_schedule clock cb solve req) = INFEASIBLE
      \<or> status (optimize_schedule clock cb solve req) = ERROR"
  then show "optimized_schedule (optimize_schedule clock cb solve req) = []"
    using unsolved_response [of clock cb solve req] by auto
qed

theorem schedule_one_entry_per_train_witness:
  "status (optimize_schedule the_clock silent_builder conflict_solver conflict_request) = OPTIMAL
   \<and> list_all2 (\<lambda>t e. train_id e = t_id t \<and> e_train_number e = train_number t
                        \<and> priority_applied e = priority t)
        (trains conflict_request)
        (optimized_schedule (optimize_schedule the_clock silent_builder conflict_solver conflict_request))
   \<and> status (optimize_schedule the_clock silent_builder infeasible_solver zero_horizon_request) = INFEASIBLE
   \<and> optimized_schedule (optimize_schedule the_clock silent_builder infeasible_solver zero_horizon_request) = []"
  using schedule_one_entry_per_train [of the_clock silent_builder conflict_solver conflict_request]
    schedule_one_entry_per_train [of the_clock silent_builder infeasible_solver zero_horizon_request]
    conflict_status zero_horizon_run
  by blast

text \<open>
  C10. For every solved schedule with \<open>n\<close> entries (one per train of the request), the
  reported throughput is \<open>n / 2\<close> trains per hour and the reported utilization is
  \<open>min (n / 20 * 100) 100\<close>: a window of two hours, whatever the time horizon of the
  request.
\<close>

theorem metrics_two_hour_window:
  assumes "status (optimize_schedule clock cb solve req) = OPTIMAL
         \<or> status (optimize_schedule clock cb solve req) = FEASIBLE"
  shows "length (optimized_schedule (optimize_schedule clock cb solve req)) = length (trains req)
       \<and> throughput_trains_per_hour (kpis (optimize_schedule clock cb solve req))
           = of_nat (length (optimized_schedule (optimize_schedule clock cb solve req))) / 2
       \<and> utilization_percent (kpis (optimize_schedule clock cb solve req))
           = min (of_nat (length (optimized_schedule (optimize_schedule clock cb solve req))) / 20 * 100) 100"
proof -
  from solved_response [OF assms] obtain a vs sched where
    "list_all2 (entry_of a vs req) (trains req) sched"
    "optimized_schedule (optimize_schedule clock cb solve req) = sched"
    "kpis (optimize_schedule clock cb solve req) = calculate_performance_metrics sched (trains req) vs"
    by blast
  then show ?thesis
    by (auto simp: calculate_performance_metrics_def Let_def dest: list_all2_lengthD)
qed

theorem metrics_two_hour_window_witness:
  "status (optimize_schedule the_clock silent_builder conflict_solver conflict_request) = OPTIMAL
   \<and> length (optimized_schedule (optimize_schedule the_clock silent_builder conflict_solver conflict_request))
       = length (trains conflict_request)
   \<and> throughput_trains_per_hour (kpis (optimize_schedule the_clock silent_builder conflict_solver conflict_request))
       = of_nat (length (optimized_schedule (optimize_schedule the_clock silent_builder conflict_solver conflict_request))) / 2
   \<and> utilization_percent (kpis (optimize_schedule the_clock silent_builder conflict_solver conflict_request))
       = min (of_nat (length (optimized_schedule (optimize_schedule the_clock silent_builder conflict_solver conflict_request))) / 20 * 100) 100"
  using metrics_two_hour_window [OF disjI1 [OF conflict_status]] conflict_status
  by blast

subsection \<open>Exceptions of the pipeline\<close>

lemma foldE_fails:
  assumes "x \<in> set xs" and "\<And>s. \<exists>e. f x s = Inl e"
  shows "\<exists>e. foldE f xs s = Inl e"
  using assms(1)
proof (induction xs arbitrary: s)
  case Nil
  then show ?case by simp
next
  case (Cons y ys)
  show ?case
  proof (cases "f y s")
    case (Inl e)
    then show ?thesis by simp
  next
    case (Inr s1)
    with assms(2) [of s] have "x \<noteq> y" by auto
    with Cons.prems have "x \<in> set ys" by simp
    from Cons.IH [OF this] Inr show ?thesis by simp
  qed
qed

lemma timing_constraint_zero_speed:
  "max_speed_kmh t = 0 \<Longrightarrow> \<exists>e. timing_constraint vs req t m = Inl e"
  by (auto simp: timing_constraint_def calculate_journey_time_def bindE_def split: sum.splits)

lemma build_model_zero_speed:
  assumes "t \<in> set (trains req)" "max_speed_kmh t = 0"
  shows "\<exists>e. build_model cb req = Inl e"
proof -
  have "\<exists>e. add_timing_constraints m vs req = Inl e" for m vs
    unfolding add_timing_constraints_def
    using foldE_fails [OF assms(1), of "timing_constraint vs req" m]
      timing_constraint_zero_speed [OF assms(2)] by blast
  then have "\<exists>e. add_constraints cb m vs req = Inl e" for m vs
    unfolding add_constraints_def by (metis bindE_Inl)
  then show ?thesis
    unfolding build_model_def by (auto simp: Let_def split: prod.splits) (metis bindE_Inl)
qed

lemma conflict_builds: "\<exists>m vs. build_model silent_builder conflict_request = Inr (m, vs)"
proof -
  have "case build_model silent_builder conflict_request of Inr mv \<Rightarrow> True | Inl e \<Rightarrow> False"
    by code_simp
  then show ?thesis
    by (cases "build_model silent_builder conflict_request") auto
qed

lemma stalled_message:
  "error_message (optimize_schedule the_clock silent_builder conflict_solver stalled_request)
     = ''float division by zero''"
  by code_simp

text \<open>
  C6. \<open>optimize_schedule\<close> always returns a response: either the body of its \<^verbatim>\<open>try\<close>
  returns one, or the body raises and the response is the error response, with status
  \<^verbatim>\<open>ERROR\<close>, an empty schedule and the exception text as the error message. This holds
  for an exception while the model is built (a train with a maximum speed of zero makes
  the journey time raise), for one raised by the solver, and for one raised while the
  solution is read.
\<close>

theorem optimize_schedule_catches_exceptions:
  "((\<exists>r. try_body clock cb solve req = Inr r \<and> optimize_schedule clock cb solve req = r)
      \<or> (\<exists>e. try_body clock cb solve req = Inl e
              \<and> optimize_schedule clock cb solve req = create_error_response clock req e))
   \<and> (\<forall>e. build_model cb req = Inl e
          \<longrightarrow> optimize_schedule clock cb solve req = create_error_response clock req e)
   \<and> (\<forall>m vs e. build_model cb req = Inr (m, vs) \<and> solve (config req) m = Raised e
          \<longrightarrow> optimize_schedule clock cb solve req = create_error_response clock req e)
   \<and> (\<forall>m vs st a e. build_model cb req = Inr (m, vs) \<and> solve (config req) m = Solved st a
            \<and> process_solution clock a st vs req = Inl e
          \<longrightarrow> optimize_schedule clock cb solve req = create_error_response clock req e)
   \<and> (\<forall>t. t \<in> set (trains req) \<and> max_speed_kmh t = 0 \<longrightarrow> (\<exists>e. build_model cb req = Inl e))
   \<and> (\<forall>e. status (create_error_response clock req e) = ERROR
          \<and> error_message (create_error_response clock req e) = e
          \<and> r_request_id (create_error_response clock req e) = request_id req
          \<and> optimized_schedule (create_error_response clock req e) = [])"
proof (intro conjI allI impI)
  show "(\<exists>r. try_body clock cb solve req = Inr r \<and> optimize_schedule clock cb solve req = r)
      \<or> (\<exists>e. try_body clock cb solve req = Inl e
              \<and> optimize_schedule clock cb solve req = create_error_response clock req e)"
    by (cases "try_body clock cb solve req") (simp_all add: optimize_schedule_def)
next
  fix e assume "build_model cb req = Inl e"
  then show "optimize_schedule clock cb solve req = create_error_response clock req e"
    by (simp add: optimize_schedule_def try_body_def)
next
  fix m vs e assume "build_model cb req = Inr (m, vs) \<and> solve (config req) m = Raised e"
  then show "optimize_schedule clock cb solve req = create_error_response clock req e"
    by (simp add: optimize_schedule_def try_body_def)
next
  fix m vs st a e
  assume "build_model cb req = Inr (m, vs) \<and> solve (config req) m = Solved st a
            \<and> process_solution clock a st vs req = Inl e"
  then show "optimize_schedule clock cb solve req = create_error_response clock req e"
    by (simp add: optimize_schedule_def try_body_def)
next
  fix t assume "t \<in> set (trains req) \<and> max_speed_kmh t = 0"
  then show "\<exists>e. build_model cb req = Inl e"
    using build_model_zero_speed by blast
qed (simp_all add: create_error_response_def)

theorem optimize_schedule_catches_exceptions_witness:
  "status (optimize_schedule the_clock silent_builder faulty_solver conflict_request) = ERROR
   \<and> error_message (optimize_schedule the_clock silent_builder faulty_solver conflict_request) = ''solver fault''
   \<and> optimized_schedule (optimize_schedule the_clock silent_builder faulty_solver conflict_request) = []
   \<and> conflict_train_2\<lparr>max_speed_kmh := 0\<rparr> \<in> set (trains stalled_request)
   \<and> max_speed_kmh (conflict_train_2\<lparr>max_speed_kmh := 0\<rparr>) = 0
   \<and> status (optimize_schedule the_clock silent_builder conflict_solver stalled_request) = ERROR
   \<and> error_message (optimize_schedule the_clock silent_builder conflict_solver stalled_request)
       = ''float division by zero''"
proof -
  note t1 = optimize_schedule_catches_exceptions [of the_clock silent_builder faulty_solver conflict_request]
  note t2 = optimize_schedule_catches_exceptions [of the_clock silent_builder conflict_solver stalled_request]
  from conflict_builds obtain m vs where b: "build_model silent_builder conflict_request = Inr (m, vs)"
    by blast
  have "faulty_solver (config conflict_request) m = Raised ''solver fault''"
    by (simp add: faulty_solver_def)
  with b t1 have r1: "optimize_schedule the_clock silent_builder faulty_solver conflict_request
      = create_error_response the_clock conflict_request ''solver fault''"
    by blast
  have mem: "conflict_train_2\<lparr>max_speed_kmh := 0\<rparr> \<in> set (trains stalled_request)"
    by (simp add: stalled_request_def)
  have z: "max_speed_kmh (conflict_train_2\<lparr>max_speed_kmh := 0\<rparr>) = 0" by simp
  from t2 mem z obtain e where "build_model silent_builder stalled_request = Inl e" by blast
  with t2 have r2: "optimize_schedule the_clock silent_builder conflict_solver stalled_request
      = create_error_response the_clock stalled_request e"
    by blast
  have s2: "status (optimize_schedule the_clock silent_builder conflict_solver stalled_request) = ERROR"
    unfolding r2 using t2 by blast
  have "status (create_error_response the_clock conflict_request ''solver fault'') = ERROR
      \<and> error_message (create_error_response the_clock conflict_request ''solver fault'') = ''solver fault''
      \<and> optimized_schedule (create_error_response the_clock conflict_request ''solver fault'') = []"
    using t1 by blast
  then show ?thesis
    unfolding r1 using mem z s2 stalled_message by blast
qed

subsection \<open>Request-supplied constraints do not decide whether the model is built\<close>

lemma bindE_eq_Inl: "bindE r f = Inl e \<longleftrightarrow> r = Inl e \<or> (\<exists>x. r = Inr x \<and> f x = Inl e)"
  by (cases r) auto

lemma foldE_error_indep:
  assumes "\<And>x s s'. (\<exists>e. f x s = Inl e \<and> f x s' = Inl e) \<or> (\<exists>t t'. f x s = Inr t \<and> f x s' = Inr t')"
  shows "(foldE f xs s = Inl e) = (foldE f xs s' = Inl e)"
proof (induction xs arbitrary: s s')
  case Nil
  then show ?case by simp
next
  case (Cons x xs)
  from assms [of x s s'] show ?case
  proof
    assume "\<exists>e. f x s = Inl e \<and> f x s' = Inl e"
    then show ?thesis by auto
  next
    assume "\<exists>t t'. f x s = Inr t \<and> f x s' = Inr t'"
    then obtain t t' where "f x s = Inr t" "f x s' = Inr t'" by blast
    then show ?thesis using Cons.IH [of t t'] by simp
  qed
qed

lemma on_time_step_indep:
  "(\<exists>e. on_time_step vs x s = Inl e \<and> on_time_step vs x s' = Inl e)
   \<or> (\<exists>t t'. on_time_step vs x s = Inr t \<and> on_time_step vs x s' = Inr t')"
  by (cases s; cases s'; cases "getitem (train_delays vs) (t_id x)")
     (auto simp: on_time_step_def Let_def split: prod.splits)

lemma balanced_step_indep:
  "(\<exists>e. balanced_step vs x s = Inl e \<and> balanced_step vs x s' = Inl e)
   \<or> (\<exists>t t'. balanced_step vs x s = Inr t \<and> balanced_step vs x s' = Inr t')"
  by (cases s; cases s'; cases "getitem (train_delays vs) (t_id x)")
     (auto simp: balanced_step_def Let_def split: prod.splits)

lemma set_objective_error_indep:
  "(set_objective m vs req = Inl e) = (set_objective m' vs req = Inl e)"
proof -
  have a: "(minimize_total_delay m vs req = Inl e) = (minimize_total_delay m' vs req = Inl e)"
    by (simp add: minimize_total_delay_def bindE_eq_Inl)
  have b: "(foldE (on_time_step vs) (trains req) (m, []) = Inl e)
      = (foldE (on_time_step vs) (trains req) (m', []) = Inl e)"
    by (rule foldE_error_indep) (rule on_time_step_indep)
  have c: "(foldE (balanced_step vs) (trains req) (m, [], []) = Inl e)
      = (foldE (balanced_step vs) (trains req) (m', [], []) = Inl e)"
    by (rule foldE_error_indep) (rule balanced_step_indep)
  show ?thesis
    using a b c
    by (auto simp: set_objective_def bindE_eq_Inl Let_def split: prod.splits)
qed

lemma stages_ignore_constraints:
  "create_decision_variables m (req\<lparr>constraints := cs\<rparr>) = create_decision_variables m req"
  "add_timing_constraints m vs (req\<lparr>constraints := cs\<rparr>) = add_timing_constraints m vs req"
  "add_platform_constraints m vs (req\<lparr>constraints := cs\<rparr>) = add_platform_constraints m vs req"
  "add_safety_constraints m vs (req\<lparr>constraints := cs\<rparr>) = add_safety_constraints m vs req"
  "add_priority_constraints m vs (req\<lparr>constraints := cs\<rparr>) = add_priority_constraints m vs req"
  "add_route_constraints m vs (req\<lparr>constraints := cs\<rparr>) = add_route_constraints m vs req"
  "set_objective m vs (req\<lparr>constraints := cs\<rparr>) = set_objective m vs req"
proof -
  have "timing_constraint vs (req\<lparr>constraints := cs\<rparr>) = timing_constraint vs req"
    by (intro ext) (simp add: timing_constraint_def)
  then show "add_timing_constraints m vs (req\<lparr>constraints := cs\<rparr>) = add_timing_constraints m vs req"
    by (simp add: add_timing_constraints_def)
qed (simp_all add: create_decision_variables_def add_platform_constraints_def
    add_safety_constraints_def add_priority_constraints_def add_route_constraints_def
    set_objective_def minimize_total_delay_def)

lemma build_model_error_indep:
  "(build_model cb req = Inl e) = (build_model cb (req\<lparr>constraints := []\<rparr>) = Inl e)"
proof -
  obtain m0 vs where c: "create_decision_variables empty_model req = (m0, vs)"
    by (cases "create_decision_variables empty_model req")
  let ?builtin = "bindE (add_timing_constraints m0 vs req) (\<lambda>m1.
     bindE (add_platform_constraints m1 vs req) (\<lambda>m2.
     bindE (add_safety_constraints m2 vs req) (\<lambda>m3.
     bindE (add_priority_constraints m3 vs req) (\<lambda>m4.
       Inr (add_route_constraints m4 vs req)))))"
  have ac: "add_constraints cb' m0 vs r' = bindE ?builtin (\<lambda>m5. Inr (add_custom_constraints cb' m5 vs r'))"
    if "r' = req \<or> r' = req\<lparr>constraints := []\<rparr>" for cb' r'
    using that
    by (cases "add_timing_constraints m0 vs req"; cases "?builtin")
       (auto simp: add_constraints_def stages_ignore_constraints Let_def bindE_def split: sum.splits)
  show ?thesis
  proof (cases ?builtin)
    case (Inl e')
    then show ?thesis
      by (simp add: build_model_def c stages_ignore_constraints ac)
  next
    case (Inr m5)
    then show ?thesis
      using set_objective_error_indep [of "add_custom_constraints cb m5 vs req" vs req e
          "add_custom_constraints cb m5 vs (req\<lparr>constraints := []\<rparr>)"]
      by (simp add: build_model_def c stages_ignore_constraints ac bindE_eq_Inl)
  qed
qed

lemma custom_run:
  "status (optimize_schedule the_clock picky_builder conflict_solver custom_request) = OPTIMAL"
  by code_simp

lemma custom_applied:
  "cp_constraints (add_custom_constraints picky_builder empty_model empty_variables custom_request)
     = [Linear (V 4) LE (K 60) []]"
  by code_simp

lemma custom_sound: "solves picky_builder custom_request conflict_values"
  by code_simp

text \<open>
  C9. For a constraint whose kind is not in the registry, \<open>add_constraint\<close> returns
  \<^verbatim>\<open>False\<close> and leaves the model as it is; when the handler of a constraint raises,
  \<open>add_constraint\<close> returns \<^verbatim>\<open>False\<close> as well. Whatever a constraint does, the
  constraints after it are applied to the model it leaves, and the request's
  constraints never make the building of the model raise: it raises with a text exactly
  when it does so for the same request without constraints.
\<close>

theorem custom_constraints_never_abort:
  "(\<not> key_in (c_type c) (constraint_registry cb) \<longrightarrow> add_constraint cb m vs c = (False, m))
   \<and> (\<forall>s h e. c_type c = Str s \<and> map_of (constraint_registry cb) s = Some h \<and> snd (h m vs c) = Some e
          \<longrightarrow> fst (add_constraint cb m vs c) = False)
   \<and> add_custom_constraints cb m vs (req\<lparr>constraints := before @ c # after\<rparr>)
       = add_custom_constraints cb
           (snd (add_constraint cb (add_custom_constraints cb m vs (req\<lparr>constraints := before\<rparr>)) vs c))
           vs (req\<lparr>constraints := after\<rparr>)
   \<and> (\<forall>e. (build_model cb req = Inl e) = (build_model cb (req\<lparr>constraints := []\<rparr>) = Inl e))"
proof (intro conjI allI impI)
  assume "\<not> key_in (c_type c) (constraint_registry cb)"
  then show "add_constraint cb m vs c = (False, m)"
    by (simp add: add_constraint_def)
next
  fix s h e
  assume "c_type c = Str s \<and> map_of (constraint_registry cb) s = Some h \<and> snd (h m vs c) = Some e"
  then show "fst (add_constraint cb m vs c) = False"
    by (auto simp: add_constraint_def run_handler_def Let_def split: prod.splits option.splits)
next
  show "add_custom_constraints cb m vs (req\<lparr>constraints := before @ c # after\<rparr>)
       = add_custom_constraints cb
           (snd (add_constraint cb (add_custom_constraints cb m vs (req\<lparr>constraints := before\<rparr>)) vs c))
           vs (req\<lparr>constraints := after\<rparr>)"
    by (simp add: add_custom_constraints_def)
next
  fix e show "(build_model cb req = Inl e) = (build_model cb (req\<lparr>constraints := []\<rparr>) = Inl e)"
    by (rule build_model_error_indep)
qed

theorem custom_constraints_never_abort_witness:
  "\<not> key_in (c_type unknown_kind) (constraint_registry picky_builder)
   \<and> add_constraint picky_builder empty_model empty_variables unknown_kind = (False, empty_model)
   \<and> c_type malformed = Str ''SAFETY_DISTANCE''
   \<and> map_of (constraint_registry picky_builder) ''SAFETY_DISTANCE'' = Some raising
   \<and> snd (raising empty_model empty_variables malformed) = Some ''invalid literal for int() with base 10''
   \<and> fst (add_constraint picky_builder empty_model empty_variables malformed) = False
   \<and> cp_constraints (add_custom_constraints picky_builder empty_model empty_variables custom_request)
       = [Linear (V 4) LE (K 60) []]
   \<and> solves picky_builder custom_request conflict_values
   \<and> status (optimize_schedule the_clock picky_builder conflict_solver custom_request) = OPTIMAL"
proof -
  note t1 = custom_constraints_never_abort [of unknown_kind picky_builder empty_model empty_variables]
  note t2 = custom_constraints_never_abort [of malformed picky_builder empty_model empty_variables]
  have k: "\<not> key_in (c_type unknown_kind) (constraint_registry picky_builder)"
    by (simp add: unknown_kind_def constraint_registry_def)
  have c: "c_type malformed = Str ''SAFETY_DISTANCE''"
    by (simp add: malformed_def)
  have r: "map_of (constraint_registry picky_builder) ''SAFETY_DISTANCE'' = Some raising"
    by (simp add: constraint_registry_def picky_builder_def)
  have e: "snd (raising empty_model empty_variables malformed) = Some ''invalid literal for int() with base 10''"
    by (simp add: raising_def)
  from t1 k have a1: "add_constraint picky_builder empty_model empty_variables unknown_kind = (False, empty_model)"
    by blast
  from t2 c r e have a2: "fst (add_constraint picky_builder empty_model empty_variables malformed) = False"
    by blast
  show ?thesis
    using k a1 c r e a2 custom_applied custom_sound custom_run by blast
qed

subsection \<open>The objective of the pipeline\<close>



lemma delay_terms:
  assumes "foldE (delay_term vs) ts acc = Inr terms"
  shows "\<exists>ds. terms = acc @ map V ds
           \<and> list_all2 (\<lambda>t d. map_of (train_delays vs) (t_id t) = Some d) ts ds"
  using assms
proof (induction ts arbitrary: acc)
  case Nil
  then show ?case by simp
next
  case (Cons t ts)
  then obtain acc1 where s: "delay_term vs t acc = Inr acc1" "foldE (delay_term vs) ts acc1 = Inr terms"
    by (auto simp: bindE_eq_Inr)
  from s(1) obtain d where "map_of (train_delays vs) (t_id t) = Some d" "acc1 = acc @ [V d]"
    by (auto simp: delay_term_def bindE_eq_Inr getitem_eq_Inr)
  with s(2) have d: "map_of (train_delays vs) (t_id t) = Some d"
      "foldE (delay_term vs) ts (acc @ [V d]) = Inr terms"
    by simp_all
  from Cons.IH [OF d(2)] obtain ds where "terms = (acc @ [V d]) @ map V ds"
      "list_all2 (\<lambda>t d. map_of (train_delays vs) (t_id t) = Some d) ts ds"
    by blast
  with d(1) have "terms = acc @ map V (d # ds)
      \<and> list_all2 (\<lambda>t d. map_of (train_delays vs) (t_id t) = Some d) (t # ts) (d # ds)"
    by simp
  then show ?case by blast
qed






subsection \<open>Solutions of the model for the local train and the express\<close>

lemma feasible_domain:
  assumes "feasible m a" "i < length (cp_variables m)"
  shows "fst (cp_variables m ! i) \<le> a i \<and> a i \<le> snd (cp_variables m ! i)"
proof -
  have "(i, cp_variables m ! i) \<in> set (zip [0 ..< length (cp_variables m)] (cp_variables m))"
    using assms(2) by (auto simp: set_zip intro!: exI [of _ i])
  with assms(1) have "in_domain a (i, cp_variables m ! i)"
    by (auto simp: feasible_def list_all_iff)
  then show ?thesis
    by (cases "cp_variables m ! i") (simp add: in_domain_def)
qed

lemma inversion_model_facts:
  "case build_model silent_builder inversion_request of
     Inl e \<Rightarrow> False
   | Inr (m, vs) \<Rightarrow>
       train_start_times vs = [(''LOCAL'', 0), (''EXP'', 5)]
     \<and> 8 < length (cp_variables m)
     \<and> cp_variables m ! 1 = (0, 20) \<and> cp_variables m ! 8 = (- 30, 60)
     \<and> Linear (V 1) EQ (Plus (V 0) (K 7)) [] \<in> set (cp_constraints m)
     \<and> Linear (V 5) EQ (Plus (K 40) (V 8)) [] \<in> set (cp_constraints m)
     \<and> Linear (V 0) GE (Plus (V 5) (K 5)) [Pos 54] \<in> set (cp_constraints m)
     \<and> Linear (V 5) GE (Plus (V 0) (K 5)) [Neg 54] \<in> set (cp_constraints m)"
  by code_simp

lemma inversion_forced_values:
  assumes "build_model silent_builder inversion_request = Inr (m, vs)" "feasible m a"
  shows "map_of (train_start_times vs) ''LOCAL'' = Some 0
       \<and> map_of (train_start_times vs) ''EXP'' = Some 5 \<and> a 0 + 5 \<le> a 5"
proof -
  from inversion_model_facts assms(1) have f:
    "train_start_times vs = [(''LOCAL'', 0), (''EXP'', 5)]"
    "8 < length (cp_variables m)"
    "cp_variables m ! 1 = (0, 20)" "cp_variables m ! 8 = (- 30, 60)"
    "Linear (V 1) EQ (Plus (V 0) (K 7)) [] \<in> set (cp_constraints m)"
    "Linear (V 5) EQ (Plus (K 40) (V 8)) [] \<in> set (cp_constraints m)"
    "Linear (V 0) GE (Plus (V 5) (K 5)) [Pos 54] \<in> set (cp_constraints m)"
    "Linear (V 5) GE (Plus (V 0) (K 5)) [Neg 54] \<in> set (cp_constraints m)"
    by simp_all
  have d1: "a 1 \<le> 20" using feasible_domain [OF assms(2), of 1] f(2,3) by simp
  have d8: "- 30 \<le> a 8" using feasible_domain [OF assms(2), of 8] f(2,4) by simp
  have c1: "a 1 = a 0 + 7" using feasible_sat [OF assms(2) f(5)] by simp
  have c2: "a 5 = 40 + a 8" using feasible_sat [OF assms(2) f(6)] by simp
  have c3: "a 54 \<noteq> 0 \<longrightarrow> a 5 + 5 \<le> a 0" using feasible_sat [OF assms(2) f(7)] by (simp split: if_splits)
  have c4: "a 54 = 0 \<longrightarrow> a 0 + 5 \<le> a 5" using feasible_sat [OF assms(2) f(8)] by (simp split: if_splits)
  have "a 0 + 5 \<le> a 5" using d1 d8 c1 c2 c3 c4 by linarith
  then show ?thesis by (simp add: f(1))
qed

text \<open>
  Whatever solution the solver reports for the local train and the express, the
  express departs at least five minutes after the local train.
\<close>

lemma inversion_forced:
  assumes sound: "solver_sound silent_builder solve inversion_request"
    and solved: "status (optimize_schedule clock silent_builder solve inversion_request) = OPTIMAL
       \<or> status (optimize_schedule clock silent_builder solve inversion_request) = FEASIBLE"
  shows "e_scheduled_departure (optimized_schedule (optimize_schedule clock silent_builder solve inversion_request) ! 0)
           + 5 * minute
         \<le> e_scheduled_departure (optimized_schedule (optimize_schedule clock silent_builder solve inversion_request) ! 1)"
proof -
  from solved_response [OF solved] obtain m vs st a sched where r:
    "build_model silent_builder inversion_request = Inr (m, vs)"
    "solve (config inversion_request) m = Solved st a"
    "st = CP_OPTIMAL \<or> st = CP_FEASIBLE"
    "list_all2 (entry_of a vs inversion_request) (trains inversion_request) sched"
    "optimized_schedule (optimize_schedule clock silent_builder solve inversion_request) = sched"
    by blast
  have feas: "feasible m a" using sound r(1-3) by (rule sound_feasible)
  from inversion_forced_values [OF r(1) feas] have v:
    "map_of (train_start_times vs) ''LOCAL'' = Some 0"
    "map_of (train_start_times vs) ''EXP'' = Some 5" "a 0 + 5 \<le> a 5"
    by simp_all
  have t: "trains inversion_request = [local_train, express_train]"
    by (simp add: inversion_request_def)
  have "entry_of a vs inversion_request local_train (sched ! 0)"
    using list_all2_nthD [OF r(4), of 0] by (simp add: t)
  then have d0: "e_scheduled_departure (sched ! 0) = requested_at inversion_request + a 0 * minute"
    by (rule entry_of_start) (simp add: local_train_def v(1))
  have "entry_of a vs inversion_request express_train (sched ! 1)"
    using list_all2_nthD [OF r(4), of 1] by (simp add: t)
  then have d1: "e_scheduled_departure (sched ! 1) = requested_at inversion_request + a 5 * minute"
    by (rule entry_of_start) (simp add: express_train_def v(2))
  show ?thesis
    unfolding r(5) d0 d1 using v(3) by (simp add: minute_def)
qed

text \<open>
  C1 fails on the code. The local train (\<^verbatim>\<open>PASSENGER\<close>) and the express
  (\<^verbatim>\<open>EXPRESS\<close>) share section S1; the values solve the model built for them, the status
  is \<^verbatim>\<open>OPTIMAL\<close>, and the express departs ten minutes after the local train. No
  priority constraint is in the model: the express is listed second, and with members
  of the Enum as priorities no rank is found at all.
\<close>

theorem priority_inversion_in_solved_schedule:
  "priority (trains inversion_request ! 0) = Member PASSENGER
   \<and> priority (trains inversion_request ! 1) = Member EXPRESS
   \<and> set (route_sections (trains inversion_request ! 0)) \<inter> set (route_sections (trains inversion_request ! 1)) \<noteq> {}
   \<and> solves silent_builder inversion_request inversion_values
   \<and> status (optimize_schedule the_clock silent_builder inversion_solver inversion_request) = OPTIMAL
   \<and> e_scheduled_departure (optimized_schedule (optimize_schedule the_clock silent_builder inversion_solver inversion_request) ! 0) = 0
   \<and> e_scheduled_departure (optimized_schedule (optimize_schedule the_clock silent_builder inversion_solver inversion_request) ! 1) = 10 * minute
   \<and> priority (trains inversion_request_named ! 0) = Str ''PASSENGER''
   \<and> priority (trains inversion_request_named ! 1) = Str ''EXPRESS''
   \<and> solves silent_builder inversion_request_named inversion_values
   \<and> status (optimize_schedule the_clock silent_builder inversion_solver inversion_request_named) = OPTIMAL
   \<and> e_scheduled_departure (optimized_schedule (optimize_schedule the_clock silent_builder inversion_solver inversion_request_named) ! 0) = 0
   \<and> e_scheduled_departure (optimized_schedule (optimize_schedule the_clock silent_builder inversion_solver inversion_request_named) ! 1) = 10 * minute"
  by code_simp

subsection \<open>Requests with a horizon of zero minutes\<close>

lemma zero_horizon_model_facts:
  "case build_model silent_builder zero_horizon_request of
     Inl e \<Rightarrow> False
   | Inr (m, vs) \<Rightarrow>
       1 < length (cp_variables m)
     \<and> cp_variables m ! 0 = (0, 0) \<and> cp_variables m ! 1 = (0, 0)
     \<and> Linear (V 1) EQ (Plus (V 0) (K 7)) [] \<in> set (cp_constraints m)"
  by code_simp

text \<open>With a horizon of zero minutes the model of the two conflicting trains has no solution.\<close>

lemma zero_horizon_infeasible: "\<not> solves silent_builder zero_horizon_request a"
proof
  assume "solves silent_builder zero_horizon_request a"
  then obtain m vs where b: "build_model silent_builder zero_horizon_request = Inr (m, vs)"
      and feas: "feasible m a"
    by (auto simp: solves_def split: sum.splits)
  from zero_horizon_model_facts b have f: "1 < length (cp_variables m)"
    "cp_variables m ! 0 = (0, 0)" "cp_variables m ! 1 = (0, 0)"
    "Linear (V 1) EQ (Plus (V 0) (K 7)) [] \<in> set (cp_constraints m)"
    by simp_all
  have "a 0 = 0" using feasible_domain [OF feas, of 0] f(1,2) by fastforce
  moreover have "a 1 = 0" using feasible_domain [OF feas, of 1] f(1,3) by fastforce
  moreover have "a 1 = a 0 + 7" using feasible_sat [OF feas f(4)] by simp
  ultimately show False by simp
qed

text \<open>
  C4 fails on the code. For the request of \<^verbatim>\<open>test_error_handling\<close> (horizon 0, no
  trains) the model is empty, it has a solution, and with the solver reporting
  \<^verbatim>\<open>OPTIMAL\<close> the response has status \<^verbatim>\<open>OPTIMAL\<close> and no error message; for the two
  conflicting trains with horizon 0 the model has no solution and the response to
  \<^verbatim>\<open>INFEASIBLE\<close> has status \<^verbatim>\<open>INFEASIBLE\<close>. Nothing in the pipeline looks at the sign
  of the horizon.
\<close>

theorem zero_horizon_is_not_an_error:
  "time_horizon_minutes test_error_request \<le> 0
   \<and> solves silent_builder test_error_request zero_values
   \<and> status (optimize_schedule the_clock silent_builder trivial_solver test_error_request) = OPTIMAL
   \<and> error_message (optimize_schedule the_clock silent_builder trivial_solver test_error_request) = []
   \<and> time_horizon_minutes zero_horizon_request \<le> 0
   \<and> status (optimize_schedule the_clock silent_builder infeasible_solver zero_horizon_request) = INFEASIBLE"
  by code_simp

text \<open>
  C5 fails on the code. When the solver reports \<^verbatim>\<open>UNKNOWN\<close> the response has status
  \<^verbatim>\<open>TIME_LIMIT_EXCEEDED\<close> and confidence 0, although \<open>calculate_confidence_score\<close> gives
  0.75 for that status: \<open>process_solution\<close> calls it for \<^verbatim>\<open>OPTIMAL\<close> and \<^verbatim>\<open>FEASIBLE\<close>
  only.
\<close>

theorem time_limit_confidence_is_zero:
  "status (optimize_schedule the_clock silent_builder unknown_solver conflict_request) = TIME_LIMIT_EXCEEDED
   \<and> confidence_score (optimize_schedule the_clock silent_builder unknown_solver conflict_request) = 0
   \<and> calculate_confidence_score TIME_LIMIT_EXCEEDED = 75 / 100"
  by code_simp

section \<open>Further properties of the pipeline\<close>

subsection \<open>The dictionaries of variables hold every train of the request\<close>

lemma new_speed_var_keys: "train_keys (snd (new_speed_var t sec s)) = train_keys (snd s)"
  by (cases s) (simp add: new_speed_var_def train_keys_def Let_def split: prod.splits)

lemma fold_new_speed_var_keys: "train_keys (snd (fold (new_speed_var t) secs s)) = train_keys (snd s)"
  by (induction secs arbitrary: s) (simp_all add: new_speed_var_keys)

lemma new_train_vars_shape:
  "\<exists>m4 a b c d. new_train_vars h t (m, vs) =
     fold (new_speed_var t) (route_sections t)
       (m4, vs\<lparr>train_start_times := AList.update (t_id t) a (train_start_times vs),
                train_end_times := AList.update (t_id t) b (train_end_times vs),
                platform_assignments := AList.update (t_id t) c (platform_assignments vs),
                train_delays := AList.update (t_id t) d (train_delays vs)\<rparr>)"
  by (simp add: new_train_vars_def Let_def split: prod.splits) blast

lemma new_train_vars_keys:
  "train_keys (snd (new_train_vars h t s)) = insert (t_id t) (train_keys (snd s))"
proof -
  obtain m vs where s: "s = (m, vs)" by (cases s)
  from new_train_vars_shape [of h t m vs] obtain m4 a b c d where
    "new_train_vars h t (m, vs) =
       fold (new_speed_var t) (route_sections t)
         (m4, vs\<lparr>train_start_times := AList.update (t_id t) a (train_start_times vs),
                  train_end_times := AList.update (t_id t) b (train_end_times vs),
                  platform_assignments := AList.update (t_id t) c (platform_assignments vs),
                  train_delays := AList.update (t_id t) d (train_delays vs)\<rparr>)"
    by blast
  then have "train_keys (snd (new_train_vars h t (m, vs))) =
      train_keys (vs\<lparr>train_start_times := AList.update (t_id t) a (train_start_times vs),
                  train_end_times := AList.update (t_id t) b (train_end_times vs),
                  platform_assignments := AList.update (t_id t) c (platform_assignments vs),
                  train_delays := AList.update (t_id t) d (train_delays vs)\<rparr>)"
    by (simp add: fold_new_speed_var_keys)
  also have "\<dots> = insert (t_id t) (train_keys vs)"
    by (auto simp: train_keys_def update_conv')
  finally show ?thesis by (simp add: s)
qed

lemma fold_new_train_vars_keys:
  "train_keys (snd (fold (new_train_vars h) ts s)) = t_id ` set ts \<union> train_keys (snd s)"
  by (induction ts arbitrary: s) (auto simp: new_train_vars_keys)

lemma new_occupancy_var_keys: "train_keys (snd (new_occupancy_var t sec k s)) = train_keys (snd s)"
  by (cases s) (simp add: new_occupancy_var_def train_keys_def Let_def split: prod.splits)

lemma fold_new_occupancy_var_keys:
  "train_keys (snd (fold (new_occupancy_var t sec) ks s)) = train_keys (snd s)"
  by (induction ks arbitrary: s) (simp_all add: new_occupancy_var_keys)

lemma new_occupancy_vars_keys: "train_keys (snd (new_occupancy_vars h t s)) = train_keys (snd s)"
proof -
  have "train_keys (snd (fold (\<lambda>section. fold (new_occupancy_var t section) ks) secs s)) = train_keys (snd s)"
    for ks secs
    by (induction secs arbitrary: s) (simp_all add: fold_new_occupancy_var_keys)
  then show ?thesis by (simp add: new_occupancy_vars_def)
qed

lemma fold_new_occupancy_vars_keys:
  "train_keys (snd (fold (new_occupancy_vars h) ts s)) = train_keys (snd s)"
  by (induction ts arbitrary: s) (simp_all add: new_occupancy_vars_keys)

lemma create_decision_variables_keys:
  "train_keys (snd (create_decision_variables m req)) = t_id ` set (trains req)"
proof -
  have "train_keys empty_variables = {}"
    by (simp add: train_keys_def empty_variables_def)
  then show ?thesis
    by (simp add: create_decision_variables_def Let_def fold_new_occupancy_vars_keys
        fold_new_train_vars_keys)
qed

lemma getitem_key:
  assumes "k \<in> dom (map_of d)"
  shows "\<exists>v. getitem d k = Inr v"
  using assms by (auto simp: getitem_def)

lemma train_keys_getitem:
  assumes "t_id t \<in> train_keys vs"
  shows "\<exists>v. getitem (train_start_times vs) (t_id t) = Inr v"
    "\<exists>v. getitem (train_end_times vs) (t_id t) = Inr v"
    "\<exists>v. getitem (platform_assignments vs) (t_id t) = Inr v"
    "\<exists>v. getitem (train_delays vs) (t_id t) = Inr v"
  using assms by (auto simp: train_keys_def intro!: getitem_key)

subsection \<open>Which stages can raise\<close>

lemma foldE_invariant:
  assumes "\<And>x s. x \<in> set xs \<Longrightarrow> P s \<Longrightarrow> \<exists>s'. f x s = Inr s' \<and> P s'" and "P s"
  shows "\<exists>s'. foldE f xs s = Inr s' \<and> P s'"
  using assms
proof (induction xs arbitrary: s)
  case Nil
  then show ?case by simp
next
  case (Cons x xs)
  from Cons.prems(1) [of x s] Cons.prems(2) obtain s1 where s1: "f x s = Inr s1" "P s1"
    by auto
  have "\<exists>s'. foldE f xs s1 = Inr s' \<and> P s'"
    by (rule Cons.IH) (use Cons.prems(1) s1(2) in auto)
  with s1(1) show ?case by simp
qed

lemma foldE_succeeds:
  assumes "\<And>x s. x \<in> set xs \<Longrightarrow> \<exists>s'. f x s = Inr s'"
  shows "\<exists>s'. foldE f xs s = Inr s'"
  using foldE_invariant [of xs "\<lambda>s. True" f s] assms by auto

lemma foldE_Inl_step:
  assumes "foldE f xs s = Inl e"
  shows "\<exists>x \<in> set xs. \<exists>s1. f x s1 = Inl e"
  using assms
proof (induction xs arbitrary: s)
  case Nil
  then show ?case by simp
next
  case (Cons x xs)
  show ?case
  proof (cases "f x s")
    case (Inl e')
    with Cons.prems show ?thesis by auto
  next
    case (Inr s1)
    with Cons.prems have "foldE f xs s1 = Inl e" by simp
    from Cons.IH [OF this] show ?thesis by auto
  qed
qed

lemma pairs_subset: "(a, b) \<in> set (pairs xs) \<Longrightarrow> a \<in> set xs \<and> b \<in> set xs"
  by (induction xs) auto

lemma journey_time_cases:
  "(max_speed_kmh t \<noteq> 0 \<longrightarrow> (\<exists>J. calculate_journey_time t = Inr J))
   \<and> (max_speed_kmh t = 0 \<longrightarrow> calculate_journey_time t = Inl ''float division by zero'')"
  by (auto simp: calculate_journey_time_def Let_def min_def)

lemma timing_constraint_cases:
  assumes "t_id t \<in> train_keys vs"
  shows "(max_speed_kmh t \<noteq> 0 \<longrightarrow> (\<exists>m'. timing_constraint vs req t m = Inr m'))
       \<and> (max_speed_kmh t = 0 \<longrightarrow> timing_constraint vs req t m = Inl ''float division by zero'')"
proof -
  from train_keys_getitem [OF assms] obtain sv ev dv where
    "getitem (train_start_times vs) (t_id t) = Inr sv"
    "getitem (train_end_times vs) (t_id t) = Inr ev"
    "getitem (train_delays vs) (t_id t) = Inr dv"
    by blast
  then show ?thesis
    using journey_time_cases [of t] by (auto simp: timing_constraint_def Let_def)
qed

lemma set_update_subset: "set (AList.update k v al) \<subseteq> insert (k, v) (set al)"
  by (induction al) auto

lemma lists_within_update:
  assumes "\<forall>(k, ts) \<in> set st. set ts \<subseteq> T" and "set v \<subseteq> T"
  shows "\<forall>(k, ts) \<in> set (AList.update k0 v st). set ts \<subseteq> T"
proof (intro ballI)
  fix x assume "x \<in> set (AList.update k0 v st)"
  with set_update_subset [of k0 v st] have "x = (k0, v) \<or> x \<in> set st" by auto
  then show "case x of (k, ts) \<Rightarrow> set ts \<subseteq> T" using assms by auto
qed

lemma group_by_station_ok:
  assumes "\<forall>(k, ts) \<in> set st. set ts \<subseteq> T" and "t \<in> T"
  shows "\<exists>st'. group_by_station t st = Inr st' \<and> (\<forall>(k, ts) \<in> set st'. set ts \<subseteq> T)"
proof -
  let ?o = "origin_station t" and ?d = "destination_station t"
  define st1 where "st1 = (if map_of st ?o = None then AList.update ?o [] st else st)"
  define st2 where "st2 = (if map_of st1 ?d = None then AList.update ?d [] st1 else st1)"
  have w1: "\<forall>(k, ts) \<in> set st1. set ts \<subseteq> T"
    using assms(1) lists_within_update [of st T "[]" ?o] by (simp add: st1_def)
  have w2: "\<forall>(k, ts) \<in> set st2. set ts \<subseteq> T"
    using w1 lists_within_update [of st1 T "[]" ?d] by (simp add: st2_def)
  have "map_of st1 ?o \<noteq> None" by (simp add: st1_def update_conv')
  then have o2: "map_of st2 ?o \<noteq> None" by (simp add: st2_def update_conv')
  have d2: "map_of st2 ?d \<noteq> None" by (simp add: st2_def update_conv')
  from o2 obtain ao where ao: "map_of st2 ?o = Some ao" by auto
  then have "(?o, ao) \<in> set st2" by (rule map_of_SomeD)
  with w2 have "set ao \<subseteq> T" by auto
  define st3 where "st3 = AList.update ?o (ao @ [t]) st2"
  have w3: "\<forall>(k, ts) \<in> set st3. set ts \<subseteq> T"
    using w2 \<open>set ao \<subseteq> T\<close> assms(2) lists_within_update [of st2 T "ao @ [t]" ?o]
    by (simp add: st3_def)
  from d2 have "map_of st3 ?d \<noteq> None" by (simp add: st3_def update_conv')
  then obtain ad where ad: "map_of st3 ?d = Some ad" by auto
  then have "(?d, ad) \<in> set st3" by (rule map_of_SomeD)
  with w3 have "set ad \<subseteq> T" by auto
  have w4: "\<forall>(k, ts) \<in> set (AList.update ?d (ad @ [t]) st3). set ts \<subseteq> T"
    using w3 \<open>set ad \<subseteq> T\<close> assms(2) lists_within_update [of st3 T "ad @ [t]" ?d] by simp
  have eq: "group_by_station t st =
      bindE (getitem st2 ?o) (\<lambda>at_origin.
        bindE (getitem (AList.update ?o (at_origin @ [t]) st2) ?d) (\<lambda>at_dest.
          Inr (AList.update ?d (at_dest @ [t]) (AList.update ?o (at_origin @ [t]) st2))))"
    by (simp add: group_by_station_def Let_def st1_def st2_def)
  have "group_by_station t st = Inr (AList.update ?d (ad @ [t]) st3)"
    using ao ad [unfolded st3_def] by (simp add: eq getitem_def st3_def)
  with w4 show ?thesis by blast
qed

lemma platform_conflict_ok:
  assumes "t_id t1 \<in> train_keys vs" "t_id t2 \<in> train_keys vs"
  shows "\<exists>m'. add_platform_conflict_constraint vs (t1, t2) m = Inr m'"
proof -
  from train_keys_getitem [OF assms(1)] train_keys_getitem [OF assms(2)]
  obtain p1 p2 s1 e1 s2 e2 where
    "getitem (platform_assignments vs) (t_id t1) = Inr p1"
    "getitem (platform_assignments vs) (t_id t2) = Inr p2"
    "getitem (train_start_times vs) (t_id t1) = Inr s1"
    "getitem (train_end_times vs) (t_id t1) = Inr e1"
    "getitem (train_start_times vs) (t_id t2) = Inr s2"
    "getitem (train_end_times vs) (t_id t2) = Inr e2"
    by blast
  then show ?thesis
    by (simp add: add_platform_conflict_constraint_def Let_def split: prod.splits)
qed

lemma add_platform_constraints_ok:
  assumes "t_id ` set (trains req) \<subseteq> train_keys vs"
  shows "\<exists>m'. add_platform_constraints m vs req = Inr m'"
proof -
  let ?T = "set (trains req)"
  have "\<exists>st. foldE group_by_station (trains req) [] = Inr st \<and> (\<forall>(k, ts) \<in> set st. set ts \<subseteq> ?T)"
    by (rule foldE_invariant) (use group_by_station_ok [of _ ?T] in auto)
  then obtain st where st: "foldE group_by_station (trains req) [] = Inr st"
      "\<forall>(k, ts) \<in> set st. set ts \<subseteq> ?T"
    by blast
  have "\<exists>m'. foldE (\<lambda>(station, ts). foldE (add_platform_conflict_constraint vs) (pairs ts)) st m = Inr m'"
  proof (rule foldE_succeeds)
    fix x :: "string \<times> Train list" and s
    assume x: "x \<in> set st"
    obtain station ts where xs: "x = (station, ts)" by (cases x)
    with x st(2) have sub: "set ts \<subseteq> ?T" by auto
    have "\<exists>s'. foldE (add_platform_conflict_constraint vs) (pairs ts) s = Inr s'"
    proof (rule foldE_succeeds)
      fix p s0 assume p: "p \<in> set (pairs ts)"
      obtain t1 t2 where pp: "p = (t1, t2)" by (cases p)
      with p pairs_subset [of t1 t2 ts] sub assms have "t_id t1 \<in> train_keys vs" "t_id t2 \<in> train_keys vs"
        by auto
      then show "\<exists>s'. add_platform_conflict_constraint vs p s0 = Inr s'"
        unfolding pp by (rule platform_conflict_ok)
    qed
    then show "\<exists>s'. (case x of (station, ts) \<Rightarrow> foldE (add_platform_conflict_constraint vs) (pairs ts)) s = Inr s'"
      by (simp add: xs)
  qed
  with st(1) show ?thesis by (simp add: add_platform_constraints_def)
qed

lemma add_safety_constraints_ok:
  assumes "t_id ` set (trains req) \<subseteq> train_keys vs"
  shows "\<exists>m'. add_safety_constraints m vs req = Inr m'"
  unfolding add_safety_constraints_def
proof (rule foldE_succeeds)
  fix p s assume p: "p \<in> set (pairs (trains req))"
  obtain t1 t2 where pp: "p = (t1, t2)" by (cases p)
  with p pairs_subset [of t1 t2 "trains req"] assms
  have "t_id t1 \<in> train_keys vs" "t_id t2 \<in> train_keys vs" by auto
  from train_keys_getitem(1) [OF this(1)] train_keys_getitem(1) [OF this(2)]
  show "\<exists>s'. safety_step vs p s = Inr s'"
    by (auto simp: pp safety_step_def add_headway_constraint_def Let_def split: prod.splits)
qed

lemma add_priority_constraints_ok:
  assumes "t_id ` set (trains req) \<subseteq> train_keys vs"
  shows "\<exists>m'. add_priority_constraints m vs req = Inr m'"
  unfolding add_priority_constraints_def
proof (rule foldE_succeeds)
  fix p s assume p: "p \<in> set (pairs (trains req))"
  obtain t1 t2 where pp: "p = (t1, t2)" by (cases p)
  with p pairs_subset [of t1 t2 "trains req"] assms
  have "t_id t1 \<in> train_keys vs" "t_id t2 \<in> train_keys vs" by auto
  from train_keys_getitem(1) [OF this(1)] train_keys_getitem(1) [OF this(2)]
  show "\<exists>s'. priority_step vs p s = Inr s'"
    by (auto simp: pp priority_step_def Let_def)
qed

lemma set_objective_ok:
  assumes "t_id ` set (trains req) \<subseteq> train_keys vs"
  shows "\<exists>m'. set_objective m vs req = Inr m'"
proof -
  have k: "\<exists>d. getitem (train_delays vs) (t_id t) = Inr d" if "t \<in> set (trains req)" for t
    using that assms train_keys_getitem(4) [of t vs] by auto
  have a: "\<exists>s'. foldE (delay_term vs) (trains req) [] = Inr s'"
  proof (rule foldE_succeeds)
    fix x s assume "x \<in> set (trains req)"
    from k [OF this] show "\<exists>s'. delay_term vs x s = Inr s'"
      by (auto simp: delay_term_def)
  qed
  have b: "\<exists>s'. foldE (on_time_step vs) (trains req) (m, []) = Inr s'"
  proof (rule foldE_succeeds)
    fix x s assume "x \<in> set (trains req)"
    from k [OF this] show "\<exists>s'. on_time_step vs x s = Inr s'"
      by (cases s) (auto simp: on_time_step_def Let_def split: prod.splits)
  qed
  have c: "\<exists>s'. foldE (balanced_step vs) (trains req) (m, [], []) = Inr s'"
  proof (rule foldE_succeeds)
    fix x s assume "x \<in> set (trains req)"
    from k [OF this] show "\<exists>s'. balanced_step vs x s = Inr s'"
      by (cases s) (auto simp: balanced_step_def Let_def split: prod.splits)
  qed
  from a have a': "\<exists>m'. minimize_total_delay m vs req = Inr m'"
    by (auto simp: minimize_total_delay_def)
  from b have b': "\<exists>m'. bindE (foldE (on_time_step vs) (trains req) (m, []))
             (\<lambda>(m, on_time_vars). Inr (set_Maximize m (sum_expr on_time_vars))) = Inr m'"
    by (auto split: prod.splits)
  from c have c': "\<exists>m'. bindE (foldE (balanced_step vs) (trains req) (m, [], []))
             (\<lambda>(m, delay_terms, on_time_vars).
               (let total_delay = sum_expr delay_terms;
                    total_on_time = sum_expr on_time_vars;
                    weighted_objective = Minus total_delay (Times total_on_time 10)
                in Inr (set_Minimize m weighted_objective))) = Inr m'"
    by (auto simp: Let_def split: prod.splits)
  show ?thesis
    unfolding set_objective_def using a' b' c' by auto
qed

lemma build_model_raises_iff:
  "(build_model cb req = Inl e)
     = (e = ''float division by zero'' \<and> (\<exists>t \<in> set (trains req). max_speed_kmh t = 0))"
proof -
  obtain m0 vs where c: "create_decision_variables empty_model req = (m0, vs)"
    by (cases "create_decision_variables empty_model req")
  have keys: "t_id ` set (trains req) \<subseteq> train_keys vs"
    using create_decision_variables_keys [of empty_model req] c by simp
  have rest: "\<exists>m vs'. build_model cb req = Inr (m, vs')" if t: "add_timing_constraints m0 vs req = Inr m1" for m1
  proof -
    from add_platform_constraints_ok [OF keys] obtain m2 where
      "add_platform_constraints m1 vs req = Inr m2" by blast
    moreover from add_safety_constraints_ok [OF keys] obtain m3 where
      "add_safety_constraints m2 vs req = Inr m3" by blast
    moreover from add_priority_constraints_ok [OF keys] obtain m4 where
      "add_priority_constraints m3 vs req = Inr m4" by blast
    moreover from set_objective_ok [OF keys] obtain m6 where
      "set_objective (add_custom_constraints cb (add_route_constraints m4 vs req) vs req) vs req = Inr m6"
      by blast
    ultimately show ?thesis
      using t c by (simp add: build_model_def add_constraints_def Let_def)
  qed
  show ?thesis
  proof (cases "add_timing_constraints m0 vs req")
    case (Inr m1)
    from rest [OF this] have nl: "build_model cb req \<noteq> Inl e" by auto
    have "\<forall>t \<in> set (trains req). max_speed_kmh t \<noteq> 0"
    proof (rule ccontr)
      assume "\<not> (\<forall>t \<in> set (trains req). max_speed_kmh t \<noteq> 0)"
      then obtain t where t: "t \<in> set (trains req)" "max_speed_kmh t = 0" by auto
      then have "\<And>s. \<exists>e. timing_constraint vs req t s = Inl e"
        using timing_constraint_cases [of t vs req] keys by auto
      from foldE_fails [OF t(1), of "timing_constraint vs req", OF this]
      obtain e0 where "foldE (timing_constraint vs req) (trains req) m0 = Inl e0" by blast
      then show False using Inr by (simp add: add_timing_constraints_def)
    qed
    with nl show ?thesis by auto
  next
    case (Inl e')
    from foldE_Inl_step [OF Inl [unfolded add_timing_constraints_def]] obtain t s1 where
      t: "t \<in> set (trains req)" "timing_constraint vs req t s1 = Inl e'" by blast
    from t(1) keys have "t_id t \<in> train_keys vs" by auto
    from timing_constraint_cases [OF this, of req s1] t(2)
    have "e' = ''float division by zero'' \<and> max_speed_kmh t = 0"
      by (cases "max_speed_kmh t = 0") auto
    moreover have "build_model cb req = Inl e'"
      using Inl c by (simp add: build_model_def add_constraints_def)
    ultimately show ?thesis using t(1) by auto
  qed
qed

text \<open>
  X1. Building the model raises exactly when some train of the request has a maximum
  speed of zero, and then with the text of the division by zero. No lookup of a
  variable fails, and neither the time horizon nor the request's constraints play
  a part.
\<close>

theorem model_building_raises_only_for_zero_speed:
  "(build_model cb req = Inl e)
     = (e = ''float division by zero'' \<and> (\<exists>t \<in> set (trains req). max_speed_kmh t = 0))"
  by (rule build_model_raises_iff)

lemma build_model_variables:
  assumes "build_model cb req = Inr (m, vs)"
  shows "t_id ` set (trains req) \<subseteq> train_keys vs"
proof -
  from build_model_chain [OF assms] obtain m0 where
    "create_decision_variables empty_model req = (m0, vs)" by blast
  with create_decision_variables_keys [of empty_model req] show ?thesis by simp
qed

lemma process_solution_ok:
  assumes "t_id ` set (trains req) \<subseteq> train_keys vs"
  shows "\<exists>r. process_solution clock a st vs req = Inr r \<and> status r = to_status st"
proof -
  have "\<exists>s'. foldE (schedule_entry a vs req) (trains req) ([], 0) = Inr s'"
  proof (rule foldE_succeeds)
    fix t s assume "t \<in> set (trains req)"
    with assms have "t_id t \<in> train_keys vs" by auto
    from train_keys_getitem [OF this] show "\<exists>s'. schedule_entry a vs req t s = Inr s'"
      by (cases s) (auto simp: schedule_entry_def Let_def)
  qed
  then show ?thesis
    by (auto simp: process_solution_def Let_def split: prod.splits)
qed

text \<open>
  X2. The response has status \<^verbatim>\<open>ERROR\<close> exactly when some train has a maximum speed of
  zero, or the solver raises, or the solver reports the model as invalid.
\<close>

theorem error_status_characterised:
  "(status (optimize_schedule clock cb solve req) = ERROR)
     = ((\<exists>t \<in> set (trains req). max_speed_kmh t = 0)
        \<or> (\<exists>m vs. build_model cb req = Inr (m, vs)
              \<and> ((\<exists>e. solve (config req) m = Raised e)
                 \<or> (\<exists>a. solve (config req) m = Solved CP_MODEL_INVALID a))))"
proof (cases "build_model cb req")
  case (Inl e)
  then have "\<exists>t \<in> set (trains req). max_speed_kmh t = 0"
    using build_model_raises_iff [of cb req e] by simp
  moreover have "status (optimize_schedule clock cb solve req) = ERROR"
    using Inl by (simp add: optimize_schedule_def try_body_def create_error_response_def)
  ultimately show ?thesis by simp
next
  case (Inr mv)
  obtain m vs where mv: "mv = (m, vs)" by (cases mv)
  have nz: "\<not> (\<exists>t \<in> set (trains req). max_speed_kmh t = 0)"
  proof
    assume "\<exists>t \<in> set (trains req). max_speed_kmh t = 0"
    then have "build_model cb req = Inl ''float division by zero''"
      using build_model_raises_iff [of cb req "''float division by zero''"] by simp
    with Inr show False by simp
  qed
  show ?thesis
  proof (cases "solve (config req) m")
    case (Raised e)
    then have "status (optimize_schedule clock cb solve req) = ERROR"
      using Inr mv by (simp add: optimize_schedule_def try_body_def create_error_response_def)
    then show ?thesis using Inr mv Raised by auto
  next
    case (Solved st a)
    from process_solution_ok [OF build_model_variables [OF Inr [unfolded mv]], of clock a st]
    obtain r where r: "process_solution clock a st vs req = Inr r" "status r = to_status st"
      by blast
    then have "status (optimize_schedule clock cb solve req) = to_status st"
      using Inr mv Solved by (simp add: optimize_schedule_def try_body_def)
    then show ?thesis
      using Inr mv Solved nz by (cases st) auto
  qed
qed

text \<open>
  X3. The confidence of a response is 1 for status \<^verbatim>\<open>OPTIMAL\<close>, 0.85 for \<^verbatim>\<open>FEASIBLE\<close>
  and 0 for every other status.
\<close>

theorem response_confidence_by_status:
  "confidence_score (optimize_schedule clock cb solve req) =
     (if status (optimize_schedule clock cb solve req) = OPTIMAL then 1
      else if status (optimize_schedule clock cb solve req) = FEASIBLE then 85 / 100
      else 0)"
proof (cases "try_body clock cb solve req")
  case (Inl e)
  then show ?thesis by (simp add: optimize_schedule_def create_error_response_def)
next
  case (Inr r)
  then obtain m vs where "build_model cb req = Inr (m, vs)"
      and c: "(case solve (config req) m of Raised e \<Rightarrow> Inl e
               | Solved st a \<Rightarrow> process_solution clock a st vs req) = Inr r"
    by (auto simp: try_body_def bindE_eq_Inr)
  from c obtain st a where p: "process_solution clock a st vs req = Inr r"
    by (cases "solve (config req) m") auto
  have "confidence_score r = (if status r = OPTIMAL then 1 else if status r = FEASIBLE then 85 / 100 else 0)"
    using p by (cases st) (auto simp: process_solution_def Let_def bindE_eq_Inr)
  then show ?thesis using Inr by (simp add: optimize_schedule_def)
qed

subsection \<open>The priority order that the model does enforce\<close>

lemma priority_adds:
  assumes "priority_step vs (t1, t2) m = Inr m'"
    and "dict_get priority_order (priority t1) 6 < dict_get priority_order (priority t2) 6"
    and "set (route_sections t1) \<inter> set (route_sections t2) \<noteq> {}"
  shows "\<exists>s1 s2. map_of (train_start_times vs) (t_id t1) = Some s1
           \<and> map_of (train_start_times vs) (t_id t2) = Some s2
           \<and> cp_constraints m' = cp_constraints m @ [Linear (V s1) LE (V s2) []]"
  using assms
  by (auto simp: priority_step_def Let_def shared_sections_def bindE_eq_Inr getitem_eq_Inr)

lemma build_model_keeps_priority:
  assumes "build_model cb req = Inr (m, vs)"
  shows "\<exists>m3 m4. add_priority_constraints m3 vs req = Inr m4 \<and> keeps m4 m"
proof -
  from build_model_chain [OF assms] obtain m3 m4 where c:
    "add_priority_constraints m3 vs req = Inr m4"
    "set_objective (add_custom_constraints cb (add_route_constraints m4 vs req) vs req) vs req = Inr m"
    by blast
  have "keeps m4 (add_route_constraints m4 vs req)" by (rule add_route_constraints_keeps)
  moreover have "keeps (add_route_constraints m4 vs req)
      (add_custom_constraints cb (add_route_constraints m4 vs req) vs req)"
    by (rule add_custom_constraints_keeps)
  moreover have "keeps (add_custom_constraints cb (add_route_constraints m4 vs req) vs req) m"
    using c(2) by (rule set_objective_keeps)
  ultimately have "keeps m4 m" by (blast intro: keeps_trans)
  with c(1) show ?thesis by blast
qed

lemma named_conflict_status:
  "status (optimize_schedule the_clock silent_builder conflict_solver named_conflict_request) = OPTIMAL"
  by code_simp

lemma named_conflict_sound: "solver_sound silent_builder conflict_solver named_conflict_request"
  by code_simp

lemma named_conflict_facts:
  "1 < length (trains named_conflict_request)"
  "set (route_sections (trains named_conflict_request ! 0))
     \<inter> set (route_sections (trains named_conflict_request ! 1)) \<noteq> {}"
  "dict_get priority_order (priority (trains named_conflict_request ! 0)) 6
     < dict_get priority_order (priority (trains named_conflict_request ! 1)) 6"
  by (simp_all add: named_conflict_request_def conflict_request_def conflict_train_1_def
      conflict_train_2_def priority_order_def)

text \<open>
  X4. In every solved schedule, when two trains share a route section, the one listed
  earlier in the request has its priority given by a name of better rank than the
  later one's (an unknown name or a member of the Enum ranks 6), it does not depart
  after the later one.
\<close>

theorem priority_order_when_listed_first:
  assumes solved: "status (optimize_schedule clock cb solve req) = OPTIMAL
         \<or> status (optimize_schedule clock cb solve req) = FEASIBLE"
    and sound: "solver_sound cb solve req"
    and ij: "i < j" "j < length (trains req)"
    and shared: "set (route_sections (trains req ! i)) \<inter> set (route_sections (trains req ! j)) \<noteq> {}"
    and rank: "dict_get priority_order (priority (trains req ! i)) 6
             < dict_get priority_order (priority (trains req ! j)) 6"
  shows "e_scheduled_departure (optimized_schedule (optimize_schedule clock cb solve req) ! i)
       \<le> e_scheduled_departure (optimized_schedule (optimize_schedule clock cb solve req) ! j)"
proof -
  let ?r = "optimize_schedule clock cb solve req"
  let ?ti = "trains req ! i" and ?tj = "trains req ! j"
  from solved_response [OF solved] obtain m vs st a sched where r:
    "build_model cb req = Inr (m, vs)" "solve (config req) m = Solved st a"
    "st = CP_OPTIMAL \<or> st = CP_FEASIBLE" "list_all2 (entry_of a vs req) (trains req) sched"
    "optimized_schedule ?r = sched"
    by blast
  have feas: "feasible m a" using sound r(1-3) by (rule sound_feasible)
  from build_model_keeps_priority [OF r(1)] obtain m3 m4 where
    s: "add_priority_constraints m3 vs req = Inr m4" "keeps m4 m" by blast
  have "(?ti, ?tj) \<in> set (pairs (trains req))" using ij by (rule pairs_nth)
  with s(1) obtain s1 s2 where step: "priority_step vs (?ti, ?tj) s1 = Inr s2" "keeps s2 m4"
    unfolding add_priority_constraints_def
    using foldE_visits [of "priority_step vs" "\<lambda>m. m" "pairs (trains req)" m3 m4 "(?ti, ?tj)"]
      priority_step_keeps by blast
  from priority_adds [OF step(1) rank shared] obtain vi vj where h:
    "map_of (train_start_times vs) (t_id ?ti) = Some vi"
    "map_of (train_start_times vs) (t_id ?tj) = Some vj"
    "cp_constraints s2 = cp_constraints s1 @ [Linear (V vi) LE (V vj) []]"
    by blast
  have k: "keeps s2 m" using step(2) s(2) by (rule keeps_trans)
  have "Linear (V vi) LE (V vj) [] \<in> set (cp_constraints s2)"
    by (simp add: h(3))
  then have "sat a (Linear (V vi) LE (V vj) [])"
    using feas k by (blast intro: feasible_sat keeps_mem)
  then have le: "a vi \<le> a vj" by simp
  have "i < length (trains req)" using ij by simp
  then have "entry_of a vs req ?ti (sched ! i)" using r(4) by (simp add: list_all2_nthD)
  then have di: "e_scheduled_departure (sched ! i) = requested_at req + a vi * minute"
    using h(1) by (rule entry_of_start)
  have "entry_of a vs req ?tj (sched ! j)" using r(4) ij(2) by (simp add: list_all2_nthD)
  then have dj: "e_scheduled_departure (sched ! j) = requested_at req + a vj * minute"
    using h(2) by (rule entry_of_start)
  show ?thesis
    unfolding r(5) di dj using le by (simp add: minute_def)
qed

theorem priority_order_when_listed_first_witness:
  "status (optimize_schedule the_clock silent_builder conflict_solver named_conflict_request) = OPTIMAL
   \<and> solver_sound silent_builder conflict_solver named_conflict_request
   \<and> (0::nat) < 1 \<and> 1 < length (trains named_conflict_request)
   \<and> set (route_sections (trains named_conflict_request ! 0))
       \<inter> set (route_sections (trains named_conflict_request ! 1)) \<noteq> {}
   \<and> dict_get priority_order (priority (trains named_conflict_request ! 0)) 6
       < dict_get priority_order (priority (trains named_conflict_request ! 1)) 6
   \<and> e_scheduled_departure (optimized_schedule (optimize_schedule the_clock silent_builder conflict_solver named_conflict_request) ! 0)
       \<le> e_scheduled_departure (optimized_schedule (optimize_schedule the_clock silent_builder conflict_solver named_conflict_request) ! 1)"
proof -
  note t = priority_order_when_listed_first
    [OF disjI1 [OF named_conflict_status] named_conflict_sound zero_less_one named_conflict_facts]
  show ?thesis
    using named_conflict_status named_conflict_sound named_conflict_facts t by blast
qed

end
